theory Spec2Isabelle
  imports Main "HOL-Library.AList"
begin

text \<open>
  A model of \<^verbatim>\<open>src/fetch.ts\<close>, the program that mirrors web pages: it fetches a page,
  rewrites the references to its images, stylesheets and scripts, writes the page,
  downloads those resources and records statistics of the page in a ledger. The functions
  of the source are given under their own names; what the source takes from libraries
  (HTTP client, file system, HTML parser, URL parser, JSON, clock) is either modelled after
  the library (\<^verbatim>\<open>path\<close>) or a parameter of the model (the record \<open>env\<close>).
\<close>

section \<open>Strings\<close>

text \<open>
  A JavaScript string is modelled as a \<^typ>\<open>string\<close>: a \<^typ>\<open>char\<close> stands for one
  UTF-16 code unit below 256, so the model covers the strings of that range.
\<close>

definition startsWith :: "string \<Rightarrow> string \<Rightarrow> bool" where
  \<comment> \<open>\<^verbatim>\<open>s.startsWith(p)\<close>\<close>
  "startsWith s p = (take (length p) s = p)"

definition endsWith :: "string \<Rightarrow> string \<Rightarrow> bool" where
  \<comment> \<open>\<^verbatim>\<open>s.endsWith(p)\<close>\<close>
  "endsWith s p = (length p \<le> length s \<and> drop (length s - length p) s = p)"

definition is_space :: "char \<Rightarrow> bool" where
  \<comment> \<open>the regular-expression class \<^verbatim>\<open>\s\<close> on code units below 256:
      tab, line feed, vertical tab, form feed, carriage return, space, no-break space\<close>
  "is_space c = (c \<in> {CHR 0x09, CHR 0x0A, CHR 0x0B, CHR 0x0C, CHR 0x0D, CHR 0x20, CHR 0xA0})"

definition is_line_terminator :: "char \<Rightarrow> bool" where
  \<comment> \<open>what the regular-expression dot refuses, on code units below 256\<close>
  "is_line_terminator c = (c \<in> {CHR 0x0A, CHR 0x0D})"

definition lower :: "char \<Rightarrow> char" where
  \<comment> \<open>case folding of the flag \<^verbatim>\<open>i\<close> on the letters of the pattern\<close>
  "lower c =
     (let n = (of_char c :: nat) in if 65 \<le> n \<and> n \<le> 90 then char_of (n + 32) else c)"

fun decimal :: "nat \<Rightarrow> string" where
  \<comment> \<open>a number inside a template literal\<close>
  "decimal n =
     (if n < 10 then [''0123456789'' ! n]
      else decimal (n div 10) @ [''0123456789'' ! (n mod 10)])"

declare decimal.simps [simp del]

fun join_with :: "string \<Rightarrow> string list \<Rightarrow> string" where
  "join_with sep [] = []"
| "join_with sep [x] = x"
| "join_with sep (x # y # ys) = x @ sep @ join_with sep (y # ys)"

primrec split_on :: "char \<Rightarrow> string \<Rightarrow> string list" where
  "split_on c [] = [[]]"
| "split_on c (x # xs) =
     (if x = c then [] # split_on c xs
      else (case split_on c xs of [] \<Rightarrow> [[x]] | y # ys \<Rightarrow> (x # y) # ys))"

definition replace_all :: "(char \<Rightarrow> bool) \<Rightarrow> char \<Rightarrow> string \<Rightarrow> string" where
  \<comment> \<open>\<^verbatim>\<open>s.replace(/[...]/g, c)\<close> for a character class\<close>
  "replace_all cls c s = map (\<lambda>x. if cls x then c else x) s"

section \<open>The path module\<close>

text \<open>
  \<^verbatim>\<open>path.join\<close> and \<^verbatim>\<open>path.dirname\<close> belong to the Node runtime, not to the repository;
  the container runs Linux, so they are the POSIX variants. They are modelled after the
  runtime's algorithm: the arguments that are not empty are joined by a slash and the
  result is normalised (empty and \<^verbatim>\<open>.\<close> segments dropped, \<^verbatim>\<open>..\<close> removing the segment before
  it, a leading and a trailing slash kept).
\<close>

definition normalize_step :: "bool \<Rightarrow> string list \<Rightarrow> string \<Rightarrow> string list" where
  "normalize_step allowAboveRoot res seg =
     (if seg = [] \<or> seg = ''.'' then res
      else if seg = ''..'' then
        (if res \<noteq> [] \<and> last res \<noteq> ''..'' then butlast res
         else if allowAboveRoot then res @ [''..''] else res)
      else res @ [seg])"

definition normalizeString :: "string \<Rightarrow> bool \<Rightarrow> string" where
  "normalizeString p allowAboveRoot =
     join_with ''/'' (foldl (normalize_step allowAboveRoot) [] (split_on CHR ''/'' p))"

definition path_normalize :: "string \<Rightarrow> string" where
  "path_normalize p =
     (if p = [] then ''.''
      else
        let isAbsolute = (hd p = CHR ''/'');
            trailingSeparator = (last p = CHR ''/'');
            q = normalizeString p (\<not> isAbsolute)
        in if q = [] then (if isAbsolute then ''/'' else if trailingSeparator then ''./'' else ''.'')
           else (if isAbsolute then ''/'' else []) @ q @ (if trailingSeparator then ''/'' else []))"

definition path_join :: "string \<Rightarrow> string \<Rightarrow> string" where
  \<comment> \<open>\<^verbatim>\<open>path.join(a, b)\<close>\<close>
  "path_join a b =
     (case filter (\<lambda>arg. arg \<noteq> []) [a, b] of
        [] \<Rightarrow> ''.''
      | args \<Rightarrow> path_normalize (join_with ''/'' args))"

definition path_dirname :: "string \<Rightarrow> string" where
  \<comment> \<open>\<^verbatim>\<open>path.dirname(p)\<close>: the scan runs from the end down to index 1, past the trailing
      slashes and the last segment, and stops at the slash before it\<close>
  "path_dirname p =
     (if p = [] then ''.''
      else
        let hasRoot = (hd p = CHR ''/'');
            r = dropWhile (\<lambda>c. c \<noteq> CHR ''/'') (dropWhile (\<lambda>c. c = CHR ''/'') (rev (tl p)));
            end = length r
        in if r = [] then (if hasRoot then ''/'' else ''.'')
           else if hasRoot \<and> end = 1 then ''//''
           else take end p)"

section \<open>URL normalizer\<close>

definition removeTrailingSlash :: "string \<Rightarrow> string" where
  \<comment> \<open>\<^verbatim>\<open>url.replace(/\/$/, '')\<close>: one slash at the end of the input is removed\<close>
  "removeTrailingSlash url = (if url \<noteq> [] \<and> last url = CHR ''/'' then butlast url else url)"

definition match_scheme :: "string \<Rightarrow> string option" where
  \<comment> \<open>the prefix \<^verbatim>\<open>^(https?):\/\/\<close> under the flag \<^verbatim>\<open>i\<close>; the result is what follows it\<close>
  "match_scheme url =
     (if map lower (take 8 url) = ''https://'' then Some (drop 8 url)
      else if map lower (take 7 url) = ''http://'' then Some (drop 7 url)
      else None)"

definition isValidUrl :: "string \<Rightarrow> bool" where
  \<comment> \<open>\<^verbatim>\<open>/^(https?):\/\/[^\s/$.?#].[^\s]*$/i.test(url)\<close>\<close>
  "isValidUrl url =
     (case match_scheme url of
        None \<Rightarrow> False
      | Some rest \<Rightarrow>
          (case rest of
             c1 # c2 # cs \<Rightarrow>
               \<not> is_space c1 \<and> c1 \<notin> set ''/$.?#'' \<and> \<not> is_line_terminator c2 \<and>
               list_all (\<lambda>c. \<not> is_space c) cs
           | _ \<Rightarrow> False))"

definition strip_scheme :: "string \<Rightarrow> string" where
  \<comment> \<open>\<^verbatim>\<open>url.replace(/^https?:\/\//, '')\<close>, case-sensitive\<close>
  "strip_scheme url =
     (if startsWith url ''https://'' then drop 8 url
      else if startsWith url ''http://'' then drop 7 url
      else url)"

definition urlToFilename :: "string \<Rightarrow> string" where
  "urlToFilename url =
     replace_all (\<lambda>c. c \<in> set ''/&?'') CHR ''_'' (strip_scheme url) @ ''.html''"

definition urlToSiteBaseUrl :: "string \<Rightarrow> string" where
  "urlToSiteBaseUrl url =
     replace_all (\<lambda>c. c \<in> set ''/&?.:=$'') CHR ''_'' (strip_scheme url)"

section \<open>HTML documents\<close>

text \<open>
  \<^verbatim>\<open>cheerio.load\<close> and \<^verbatim>\<open>$.html()\<close> belong to the cheerio library. The functions that the
  source applies to an HTML string are modelled on what \<^verbatim>\<open>cheerio.load\<close> reads from it: the
  elements of the document in document order, each with its tag name and its attributes
  (names and values, every name once). The caller of such a function applies the parser
  and the serialiser, which it receives as parameters (see \<open>env\<close> below).
\<close>

datatype element = Element (name: string) (attribs: "(string \<times> string) list")

type_synonym document = "element list"

definition attr :: "element \<Rightarrow> string \<Rightarrow> string option" where
  \<comment> \<open>\<^verbatim>\<open>element.attribs[a]\<close> and \<^verbatim>\<open>$(element).attr(a)\<close>; \<open>None\<close> is \<^verbatim>\<open>undefined\<close>\<close>
  "attr e a = map_of (attribs e) a"

definition set_attr :: "element \<Rightarrow> string \<Rightarrow> string \<Rightarrow> element" where
  \<comment> \<open>\<^verbatim>\<open>$(element).attr(a, v)\<close>\<close>
  "set_attr e a v = Element (name e) (AList.update a v (attribs e))"

definition IMAGE_SELECTOR :: "element \<Rightarrow> bool" where
  \<comment> \<open>\<^verbatim>\<open>'img'\<close>\<close>
  "IMAGE_SELECTOR e = (name e = ''img'')"

definition CSS_SELECTOR :: "element \<Rightarrow> bool" where
  \<comment> \<open>\<^verbatim>\<open>'link[rel="stylesheet"]'\<close>; in an HTML document the value of \<^verbatim>\<open>rel\<close> is compared
      without regard to case\<close>
  "CSS_SELECTOR e =
     (name e = ''link'' \<and>
      (case attr e ''rel'' of None \<Rightarrow> False | Some v \<Rightarrow> map lower v = ''stylesheet''))"

definition JS_SELECTOR :: "element \<Rightarrow> bool" where
  \<comment> \<open>\<^verbatim>\<open>'script[src]'\<close>\<close>
  "JS_SELECTOR e = (name e = ''script'' \<and> attr e ''src'' \<noteq> None)"

definition select :: "(element \<Rightarrow> bool) \<Rightarrow> document \<Rightarrow> element list" where
  \<comment> \<open>\<^verbatim>\<open>$(selector)\<close>\<close>
  "select sel doc = filter sel doc"

definition each :: "(element \<Rightarrow> bool) \<Rightarrow> (element \<Rightarrow> element) \<Rightarrow> document \<Rightarrow> document" where
  \<comment> \<open>\<^verbatim>\<open>$(selector).each(f)\<close> where \<open>f\<close> updates the element it is given\<close>
  "each sel f doc = map (\<lambda>e. if sel e then f e else e) doc"

section \<open>HTML rewriter\<close>

definition modifyPath :: "string \<Rightarrow> string \<Rightarrow> element \<Rightarrow> element" where
  "modifyPath siteDir attributeName e =
     (case attr e attributeName of
        None \<Rightarrow> e
      | Some attributeValue \<Rightarrow>
          if attributeValue \<noteq> [] \<and> \<not> startsWith attributeValue ''http''
          then set_attr e attributeName (path_join siteDir attributeValue)
          else e)"

definition modifyHtmlContent :: "document \<Rightarrow> string \<Rightarrow> document" where
  "modifyHtmlContent doc siteDir =
     each JS_SELECTOR (modifyPath siteDir ''src'')
       (each CSS_SELECTOR (modifyPath siteDir ''href'')
         (each IMAGE_SELECTOR (modifyPath siteDir ''src'') doc))"

section \<open>HTML resource scanner\<close>

definition countTagsInHtml :: "document \<Rightarrow> string \<Rightarrow> nat" where
  "countTagsInHtml doc tagName = length (select (\<lambda>e. name e = tagName) doc)"

definition countFilesInHtml :: "document \<Rightarrow> nat \<times> nat" where
  "countFilesInHtml doc = (countTagsInHtml doc ''a'', countTagsInHtml doc ''img'')"

definition listImagesInHtml :: "document \<Rightarrow> string list" where
  \<comment> \<open>cheerio's \<^verbatim>\<open>map\<close> leaves out the elements for which the function gives \<^verbatim>\<open>undefined\<close>\<close>
  "listImagesInHtml doc = List.map_filter (\<lambda>e. attr e ''src'') (select IMAGE_SELECTOR doc)"

definition listCssFilesInHtml :: "document \<Rightarrow> string list" where
  "listCssFilesInHtml doc = List.map_filter (\<lambda>e. attr e ''href'') (select CSS_SELECTOR doc)"

definition listJsFilesInHtml :: "document \<Rightarrow> string list" where
  "listJsFilesInHtml doc = List.map_filter (\<lambda>e. attr e ''src'') (select JS_SELECTOR doc)"

definition validFilename :: "string \<Rightarrow> bool" where
  \<comment> \<open>\<^verbatim>\<open>file.length > 0 && !/[;:,]/.test(file)\<close>\<close>
  "validFilename file = (length file > 0 \<and> \<not> list_ex (\<lambda>c. c \<in> set '';:,'') file)"

definition candidateFiles :: "document \<Rightarrow> string list" where
  \<comment> \<open>\<^verbatim>\<open>[...images, ...cssFiles, ...jsFiles]\<close>\<close>
  "candidateFiles doc = listImagesInHtml doc @ listCssFilesInHtml doc @ listJsFilesInHtml doc"

definition validFiles :: "document \<Rightarrow> string list" where
  "validFiles doc = filter validFilename (candidateFiles doc)"

section \<open>Errors, log, metadata ledger, state\<close>

datatype exn =
    Error string
      \<comment> \<open>an \<^verbatim>\<open>Error\<close> that is not an \<^verbatim>\<open>AxiosError\<close>, with its message\<close>
  | AxiosError string "(nat \<times> string) option" "string option"
      \<comment> \<open>message; status and data of the response, if there is one;
          \<^verbatim>\<open>_currentUrl\<close> of the request, if there is one\<close>

fun message :: "exn \<Rightarrow> string" where
  "message (Error m) = m"
| "message (AxiosError m _ _) = m"

fun getAxiosErrorMessage :: "string \<Rightarrow> (nat \<times> string) option \<Rightarrow> string option \<Rightarrow> string" where
  "getAxiosErrorMessage m (Some (status, data)) req =
     (if status = 404
      then ''Server responded with status code: '' @ decimal status @ '', and no content was found.''
      else ''Server responded with status code: '' @ decimal status @ '', and data: '' @ data)"
| "getAxiosErrorMessage m None (Some currentUrl) = currentUrl @ '' is invalid URL.''"
| "getAxiosErrorMessage m None None = ''Error creating request:'' @ [CHR 0x27, CHR '' ''] @ m"

datatype log_entry = Info string | Err string

record MetaData =
  url :: string
  num_links :: nat
  num_images :: nat
  last_fetch :: nat
  num_fetches :: int

type_synonym ledger = "(string \<times> MetaData) list"

text \<open>
  \<open>META_DB\<close> is a JavaScript \<^verbatim>\<open>Map\<close>: an association list in insertion order, where
  \<^verbatim>\<open>set\<close> replaces the value of a key that is present and appends a new key.
  What lies outside the process (network, file system, clock) is a value of the type
  \<open>'w\<close>, which the operations of \<open>env\<close> read and change.
\<close>

record 'w state =
  META_DB :: ledger
  logger :: "log_entry list"
  world :: 'w

record 'w env =
  axios_get :: "string \<Rightarrow> 'w \<Rightarrow> (exn + string) \<times> 'w"
  axios_get_arraybuffer :: "string \<Rightarrow> 'w \<Rightarrow> (exn + string) \<times> 'w"
  fs_mkdir :: "string \<Rightarrow> 'w \<Rightarrow> (exn + unit) \<times> 'w"
  fs_writeFile :: "string \<Rightarrow> string \<Rightarrow> 'w \<Rightarrow> (exn + unit) \<times> 'w"
  fs_readFile :: "string \<Rightarrow> 'w \<Rightarrow> (exn + string) \<times> 'w"
  fs_existsSync :: "string \<Rightarrow> 'w \<Rightarrow> bool"
  cheerio_load :: "string \<Rightarrow> document"
  cheerio_html :: "document \<Rightarrow> string"
  URL_href :: "string \<Rightarrow> string \<Rightarrow> exn + string"
  URL_pathname :: "string \<Rightarrow> exn + string"
  JSON_stringify :: "MetaData list \<Rightarrow> string"
  JSON_parse :: "string \<Rightarrow> exn + MetaData list"
  Date_now :: "'w \<Rightarrow> nat"

definition APP_ROOT_PATH :: string where
  "APP_ROOT_PATH = ''fetch-site-cli''"

definition META_FILE :: string where
  "META_FILE = ''meta.json''"

definition consoleLog :: "string \<Rightarrow> 'w state \<Rightarrow> 'w state" where
  "consoleLog msg s = s\<lparr>logger := logger s @ [Info msg]\<rparr>"

definition consoleError :: "string \<Rightarrow> 'w state \<Rightarrow> 'w state" where
  "consoleError msg s = s\<lparr>logger := logger s @ [Err msg]\<rparr>"

section \<open>Page fetch and file writes\<close>

definition fetchData :: "'w env \<Rightarrow> string \<Rightarrow> 'w state \<Rightarrow> (exn + string) \<times> 'w state" where
  \<comment> \<open>the \<^verbatim>\<open>catch\<close> turns an \<^verbatim>\<open>AxiosError\<close> into an \<^verbatim>\<open>Error\<close> with the message of
      \<open>getAxiosErrorMessage\<close> and throws any other error again\<close>
  "fetchData env url' s =
     (if \<not> isValidUrl url' then (Inl (Error (url' @ '' is invalid URL.'')), s)
      else
        case axios_get env url' (world s) of
          (Inl (AxiosError m resp req), w) \<Rightarrow>
            (Inl (Error (getAxiosErrorMessage m resp req)), s\<lparr>world := w\<rparr>)
        | (Inl (Error m), w) \<Rightarrow> (Inl (Error m), s\<lparr>world := w\<rparr>)
        | (Inr content, w) \<Rightarrow>
            (Inr content,
             consoleLog (''Content fetched from '' @ url' @ '' successfully.'') (s\<lparr>world := w\<rparr>)))"

definition safeWriteFile :: "'w env \<Rightarrow> string \<Rightarrow> string \<Rightarrow> 'w state \<Rightarrow> (exn + unit) \<times> 'w state" where
  "safeWriteFile env filePath content s =
     (let directoryPath = path_dirname filePath in
      case fs_mkdir env directoryPath (world s) of
        (Inl e, w) \<Rightarrow> (Inl e, s\<lparr>world := w\<rparr>)
      | (Inr _, w) \<Rightarrow>
          (case fs_writeFile env filePath content w of
             (Inl e, w') \<Rightarrow> (Inl e, s\<lparr>world := w'\<rparr>)
           | (Inr _, w') \<Rightarrow> (Inr (), s\<lparr>world := w'\<rparr>)))"

definition writeFile :: "'w env \<Rightarrow> string \<Rightarrow> string \<Rightarrow> 'w state \<Rightarrow> (exn + unit) \<times> 'w state" where
  "writeFile env content filename s =
     (case safeWriteFile env filename content s of
        (Inl e, s') \<Rightarrow> (Inl e, s')
      | (Inr _, s') \<Rightarrow>
          (Inr (), consoleLog (''Data written to '' @ filename @ '' successfully.'') s'))"

definition createSiteDirectory :: "'w env \<Rightarrow> string \<Rightarrow> string \<Rightarrow> 'w state \<Rightarrow> (exn + string) \<times> 'w state" where
  "createSiteDirectory env appPath url' s =
     (let dirname = replace_all (\<lambda>c. c \<in> set ''/&?.:=$'') CHR ''_'' (strip_scheme url');
          dirname = path_join appPath dirname
      in case fs_mkdir env dirname (world s) of
           (Inl e, w) \<Rightarrow> (Inl e, s\<lparr>world := w\<rparr>)
         | (Inr _, w) \<Rightarrow> (Inr dirname, s\<lparr>world := w\<rparr>))"

section \<open>Resource downloader\<close>

text \<open>
  Each element of \<^verbatim>\<open>urls\<close> gives one task: the \<^verbatim>\<open>try\<close> block is \<open>downloadFile\<close>, with
  its \<^verbatim>\<open>catch\<close> it is \<open>downloadTask\<close>. The source starts all tasks and lets them
  interleave at their \<^verbatim>\<open>await\<close>s; the model runs them one after the other, in the order
  of \<^verbatim>\<open>urls\<close>, each to its end. \<open>Promise_all\<close> is rejected with the first rejection among
  the settled tasks and fulfilled when there is none.
\<close>

definition downloadFile :: "'w env \<Rightarrow> string \<Rightarrow> string \<Rightarrow> nat \<Rightarrow> 'w state \<Rightarrow> (exn + unit) \<times> 'w state" where
  "downloadFile env directoryPath url' index s0 =
     (let s = consoleLog (''Downloading: '' @ url') s0 in
      case URL_pathname env url' of
        Inl e \<Rightarrow> (Inl e, s)
      | Inr filename \<Rightarrow>
          let filePath = path_join directoryPath filename in
          (case axios_get_arraybuffer env url' (world s) of
             (Inl e, w) \<Rightarrow> (Inl e, s\<lparr>world := w\<rparr>)
           | (Inr content, w) \<Rightarrow>
               (case safeWriteFile env filePath content (s\<lparr>world := w\<rparr>) of
                  (Inl e, s') \<Rightarrow> (Inl e, s')
                | (Inr _, s') \<Rightarrow>
                    (Inr (),
                     consoleLog (''File #'' @ decimal (index + 1) @ '' downloaded successfully.'') s'))))"

definition downloadTask :: "'w env \<Rightarrow> string \<Rightarrow> string \<Rightarrow> nat \<Rightarrow> 'w state \<Rightarrow> (exn + unit) \<times> 'w state" where
  "downloadTask env directoryPath url' index s =
     (case downloadFile env directoryPath url' index s of
        (Inl error, s') \<Rightarrow>
          (Inr (),
           consoleError (''  Details: '' @ message error)
             (consoleError (''Error downloading file '' @ decimal (index + 1) @ '': '' @ url') s'))
      | (Inr _, s') \<Rightarrow> (Inr (), s'))"

fun run_tasks :: "('s \<Rightarrow> (exn + unit) \<times> 's) list \<Rightarrow> 's \<Rightarrow> (exn + unit) list \<times> 's" where
  "run_tasks [] s = ([], s)"
| "run_tasks (t # ts) s =
     (case t s of (r, s') \<Rightarrow> (case run_tasks ts s' of (rs, s'') \<Rightarrow> (r # rs, s'')))"

fun Promise_all :: "(exn + unit) list \<Rightarrow> exn + unit" where
  "Promise_all [] = Inr ()"
| "Promise_all (Inl e # rs) = Inl e"
| "Promise_all (Inr _ # rs) = Promise_all rs"

definition downloadFiles :: "'w env \<Rightarrow> string list \<Rightarrow> string \<Rightarrow> 'w state \<Rightarrow> (exn + unit) \<times> 'w state" where
  "downloadFiles env urls directoryPath s =
     (let promises =
            map (\<lambda>(url', index). downloadTask env directoryPath url' index)
              (zip urls [0..<length urls])
      in case run_tasks promises s of (results, s') \<Rightarrow> (Promise_all results, s'))"

fun map_exn :: "('a \<Rightarrow> exn + 'b) \<Rightarrow> 'a list \<Rightarrow> exn + 'b list" where
  \<comment> \<open>\<^verbatim>\<open>xs.map(f)\<close> for an \<open>f\<close> that may throw: the first exception ends the call\<close>
  "map_exn f [] = Inr []"
| "map_exn f (x # xs) =
     (case f x of
        Inl e \<Rightarrow> Inl e
      | Inr y \<Rightarrow> (case map_exn f xs of Inl e \<Rightarrow> Inl e | Inr ys \<Rightarrow> Inr (y # ys)))"

definition resolveFiles :: "'w env \<Rightarrow> string \<Rightarrow> document \<Rightarrow> exn + string list" where
  \<comment> \<open>\<^verbatim>\<open>validFiles.map((url) => new URL(url, baseUrl).href)\<close>\<close>
  "resolveFiles env baseUrl doc = map_exn (\<lambda>url'. URL_href env url' baseUrl) (validFiles doc)"

definition downloadFilesInHtml :: "'w env \<Rightarrow> string \<Rightarrow> string \<Rightarrow> string \<Rightarrow> 'w state \<Rightarrow> (exn + unit) \<times> 'w state" where
  "downloadFilesInHtml env baseUrl contentHtml siteDir s =
     (case resolveFiles env baseUrl (cheerio_load env contentHtml) of
        Inl e \<Rightarrow> (Inl e, s)
      | Inr files \<Rightarrow> downloadFiles env files siteDir s)"

section \<open>Metadata ledger\<close>

definition prevFetches :: "ledger \<Rightarrow> string \<Rightarrow> int" where
  \<comment> \<open>\<^verbatim>\<open>META_DB.get(url)?.num_fetches ?? 0\<close>\<close>
  "prevFetches db url' = (case map_of db url' of None \<Rightarrow> 0 | Some m \<Rightarrow> num_fetches m)"

definition createMetaData :: "string \<Rightarrow> document \<Rightarrow> nat \<Rightarrow> ledger \<Rightarrow> MetaData" where
  \<comment> \<open>the third argument is \<^verbatim>\<open>new Date()\<close>, the fourth is \<^verbatim>\<open>META_DB\<close>\<close>
  "createMetaData url' doc now db =
     (case countFilesInHtml doc of
        (linkCount, imageCount) \<Rightarrow>
          \<lparr>url = url', num_links = linkCount, num_images = imageCount,
           last_fetch = now, num_fetches = prevFetches db url' + 1\<rparr>)"

definition setMetaData :: "string \<Rightarrow> document \<Rightarrow> nat \<Rightarrow> ledger \<Rightarrow> ledger" where
  \<comment> \<open>the first two statements of \<^verbatim>\<open>updateMetaData\<close>\<close>
  "setMetaData url' doc now db = AList.update url' (createMetaData url' doc now db) db"

definition writeMetaFile :: "'w env \<Rightarrow> 'w state \<Rightarrow> (exn + unit) \<times> 'w state" where
  "writeMetaFile env s =
     (let filePath = path_join APP_ROOT_PATH META_FILE;
          json = JSON_stringify env (map snd (META_DB s))
      in case fs_writeFile env filePath json (world s) of
           (Inl e, w) \<Rightarrow> (Inl e, s\<lparr>world := w\<rparr>)
         | (Inr _, w) \<Rightarrow> (Inr (), s\<lparr>world := w\<rparr>))"

definition updateMetaData :: "'w env \<Rightarrow> string \<Rightarrow> string \<Rightarrow> 'w state \<Rightarrow> (exn + unit) \<times> 'w state" where
  "updateMetaData env url' contentHtml s =
     writeMetaFile env
       (s\<lparr>META_DB :=
            setMetaData url' (cheerio_load env contentHtml) (Date_now env (world s)) (META_DB s)\<rparr>)"

definition loadMetaData :: "MetaData list \<Rightarrow> ledger \<Rightarrow> ledger" where
  \<comment> \<open>\<^verbatim>\<open>for (const meta of metaData) META_DB.set(meta.url, meta)\<close>\<close>
  "loadMetaData metaData db = foldl (\<lambda>db meta. AList.update (url meta) meta db) db metaData"

definition readMetaDataFile :: "'w env \<Rightarrow> 'w state \<Rightarrow> (exn + unit) \<times> 'w state" where
  \<comment> \<open>the write of the default file is not awaited in the source: its outcome is dropped\<close>
  "readMetaDataFile env s =
     (let filePath = path_join APP_ROOT_PATH META_FILE;
          w0 = (if \<not> fs_existsSync env filePath (world s)
                then snd (fs_writeFile env filePath (JSON_stringify env []) (world s))
                else world s)
      in case fs_readFile env filePath w0 of
           (Inl e, w) \<Rightarrow> (Inl e, s\<lparr>world := w\<rparr>)
         | (Inr json, w) \<Rightarrow>
             (case JSON_parse env json of
                Inl error \<Rightarrow>
                  (Inr (),
                   consoleLog (''Reading metadata file error: '' @ message error) (s\<lparr>world := w\<rparr>))
              | Inr metaData \<Rightarrow>
                  (Inr (), s\<lparr>META_DB := loadMetaData metaData (META_DB s), world := w\<rparr>)))"

section \<open>Mirroring pipeline\<close>

definition mirror :: "'w env \<Rightarrow> string \<Rightarrow> string \<Rightarrow> 'w state \<Rightarrow> (exn + unit) \<times> 'w state" where
  \<comment> \<open>the \<^verbatim>\<open>try\<close> block of \<^verbatim>\<open>refetchDataFromUrl\<close>\<close>
  "mirror env appPath url' s0 =
     (let s = consoleLog (''Fetching '' @ url' @ '' ...'') s0 in
      case fetchData env url' s of
        (Inl e, s1) \<Rightarrow> (Inl e, s1)
      | (Inr contentHtml, s1) \<Rightarrow>
          (case createSiteDirectory env appPath url' s1 of
             (Inl e, s2) \<Rightarrow> (Inl e, s2)
           | (Inr sitePath, s2) \<Rightarrow>
               let filename = urlToFilename url';
                   filePath = path_join appPath filename;
                   siteBaseUrl = urlToSiteBaseUrl url';
                   modifiedContentHtml =
                     cheerio_html env (modifyHtmlContent (cheerio_load env contentHtml) siteBaseUrl)
               in (case writeFile env modifiedContentHtml filePath s2 of
                     (Inl e, s3) \<Rightarrow> (Inl e, s3)
                   | (Inr _, s3) \<Rightarrow>
                       (case downloadFilesInHtml env url' contentHtml sitePath s3 of
                          (Inl e, s4) \<Rightarrow> (Inl e, s4)
                        | (Inr _, s4) \<Rightarrow> updateMetaData env url' contentHtml s4))))"

definition refetchDataFromUrl :: "'w env \<Rightarrow> string \<Rightarrow> string \<Rightarrow> 'w state \<Rightarrow> 'w state" where
  "refetchDataFromUrl env appPath url' s =
     (case mirror env appPath url' s of
        (Inl error, s') \<Rightarrow> consoleError (message error) s'
      | (Inr _, s') \<Rightarrow> s')"

section \<open>Notions used by the properties\<close>

definition reference :: "element \<Rightarrow> string option" where
  \<comment> \<open>the attribute that holds the resource reference of an element which one of the
      three selectors picks: image \<^verbatim>\<open>src\<close>, stylesheet \<^verbatim>\<open>href\<close>, script \<^verbatim>\<open>src\<close>\<close>
  "reference e =
     (if IMAGE_SELECTOR e then Some ''src''
      else if CSS_SELECTOR e then Some ''href''
      else if JS_SELECTOR e then Some ''src''
      else None)"

definition modifyElement :: "string \<Rightarrow> element \<Rightarrow> element" where
  \<comment> \<open>what the three passes of \<open>modifyHtmlContent\<close> together do to one element\<close>
  "modifyElement d e = (case reference e of None \<Rightarrow> e | Some a \<Rightarrow> modifyPath d a e)"

definition ledger_ok :: "ledger \<Rightarrow> bool" where
  \<comment> \<open>every key once, every entry under its own URL and with at least one fetch\<close>
  "ledger_ok db =
     (distinct (map fst db) \<and> (\<forall>(k, m)\<in>set db. url m = k \<and> 1 \<le> num_fetches m))"

text \<open>
  The ledgers that the program can hold: the empty map of a first run, the map after the
  update that ends a successful mirror, and the map that a later run loads from the file
  which \<open>writeMetaFile\<close> wrote (the values of the map, in order).
\<close>

inductive reachable :: "ledger \<Rightarrow> bool" where
  start: "reachable []"
| mirrored: "reachable db \<Longrightarrow> reachable (setMetaData url' doc now db)"
| restarted: "reachable db \<Longrightarrow> reachable (loadMetaData (map snd db) [])"

subsection \<open>An example environment\<close>

text \<open>
  The scenario of the specification, for the concrete instances below: the page
  \<^verbatim>\<open>https://example.com\<close> with an image, a stylesheet, a script and a link; the server has
  no stylesheet; every file-system operation succeeds. The world is the list of the
  operations performed.
\<close>

datatype event = Request string | Mkdir string | Write string string

definition example_page :: document where
  "example_page =
     [Element ''img'' [(''src'', ''/a.png'')],
      Element ''link'' [(''rel'', ''stylesheet''), (''href'', ''/b.css'')],
      Element ''script'' [(''src'', ''/c.js'')],
      Element ''a'' [(''href'', ''https://www.iana.org/domains/example'')]]"

definition example_env :: "event list env" where
  "example_env =
     \<lparr>axios_get = (\<lambda>u w.
        (if u = ''https://example.com'' then Inr ''page''
         else Inl (AxiosError ''getaddrinfo ENOTFOUND'' None (Some u)), w @ [Request u])),
      axios_get_arraybuffer = (\<lambda>u w.
        (if u = ''https://example.com/b.css''
         then Inl (AxiosError ''Request failed with status code 404'' (Some (404, [])) (Some u))
         else Inr ''bytes'', w @ [Request u])),
      fs_mkdir = (\<lambda>p w. (Inr (), w @ [Mkdir p])),
      fs_writeFile = (\<lambda>p c w. (Inr (), w @ [Write p c])),
      fs_readFile = (\<lambda>p w. (Inr ''[]'', w)),
      fs_existsSync = (\<lambda>p w. True),
      cheerio_load = (\<lambda>h. if h = ''page'' then example_page else []),
      cheerio_html = (\<lambda>doc. ''rewritten page''),
      URL_href = (\<lambda>r base. Inr (base @ r)),
      URL_pathname = (\<lambda>u. Inr (drop 19 u)),
      JSON_stringify = (\<lambda>ms. ''json''),
      JSON_parse = (\<lambda>j. Inr []),
      Date_now = (\<lambda>w. length w)\<rparr>"

definition example_state :: "event list state" where
  "example_state = \<lparr>META_DB = [], logger = [], world = []\<rparr>"

text \<open>
  A second page at the same address: its first image reference is \<^verbatim>\<open>//\<close>, which
  \<^verbatim>\<open>new URL\<close> refuses with a \<^verbatim>\<open>TypeError\<close> (a host is missing), its second one is an
  ordinary relative path.
\<close>

definition unresolvable_page :: document where
  "unresolvable_page =
     [Element ''img'' [(''src'', ''//'')], Element ''img'' [(''src'', ''ok.png'')]]"

definition unresolvable_env :: "event list env" where
  "unresolvable_env =
     example_env
       \<lparr>cheerio_load := (\<lambda>h. if h = ''page'' then unresolvable_page else []),
        URL_href := (\<lambda>r base.
           if r = ''//'' then Inl (Error ''Invalid URL'') else Inr (base @ ''/'' @ r)),
        URL_pathname := (\<lambda>u.
           if u = ''//'' then Inl (Error ''Invalid URL'') else Inr (drop 19 u))\<rparr>"

section \<open>Properties\<close>

subsection \<open>URL normalizer\<close>

text \<open>
  Claim C6, as amended. \<open>removeTrailingSlash\<close> removes one slash from the end of its
  argument and no more: applying it twice gives the same as applying it once exactly for
  the strings that do not end in two slashes.
\<close>

theorem removeTrailingSlash_twice:
  "(removeTrailingSlash (removeTrailingSlash u) = removeTrailingSlash u \<longleftrightarrow> \<not> endsWith u ''//'')
   \<and> removeTrailingSlash (u @ ''/'') = u"
proof (cases u rule: rev_cases)
  case Nil
  then show ?thesis by (simp add: removeTrailingSlash_def endsWith_def)
next
  case (snoc v c)
  show ?thesis
  proof (cases v rule: rev_cases)
    case Nil
    with snoc show ?thesis by (simp add: removeTrailingSlash_def endsWith_def)
  next
    case (snoc w d)
    with \<open>u = v @ [c]\<close> show ?thesis
      by (auto simp: removeTrailingSlash_def endsWith_def butlast_append last_append)
  qed
qed

text \<open>An instance: a URL with one slash at its end.\<close>

theorem removeTrailingSlash_twice_witness:
  "removeTrailingSlash (removeTrailingSlash ''https://example.com/'') = ''https://example.com''
   \<and> \<not> endsWith ''https://example.com/'' ''//''"
  using removeTrailingSlash_twice [of "''https://example.com/''"]
  by (simp add: removeTrailingSlash_def endsWith_def)

text \<open>
  Idempotence fails on a URL that validation accepts and that ends in two slashes: the
  second application removes the second slash.
\<close>

theorem removeTrailingSlash_idempotent_counterexample:
  "isValidUrl ''http://ab//'' \<and>
   removeTrailingSlash (removeTrailingSlash ''http://ab//'') \<noteq> removeTrailingSlash ''http://ab//''"
  by (simp add: isValidUrl_def match_scheme_def lower_def is_space_def is_line_terminator_def
      removeTrailingSlash_def)

subsection \<open>HTML resource scanner\<close>

text \<open>
  Claim C8. A candidate reference (image \<^verbatim>\<open>src\<close>, stylesheet \<^verbatim>\<open>href\<close>, script \<^verbatim>\<open>src\<close>) is
  among the references to download exactly when it is not empty and contains none of the
  characters semicolon, colon and comma.
\<close>

theorem validFiles_filter:
  "r \<in> set (validFiles doc) \<longleftrightarrow>
     r \<in> set (candidateFiles doc) \<and> r \<noteq> [] \<and>
     CHR '';'' \<notin> set r \<and> CHR '':'' \<notin> set r \<and> CHR '','' \<notin> set r"
  by (auto simp: validFiles_def validFilename_def list_ex_iff)

text \<open>An instance: a relative path passes, an absolute URL and an empty reference do not.\<close>

theorem validFiles_filter_witness:
  "''img/a.png'' \<in> set (validFiles [Element ''img'' [(''src'', ''img/a.png'')],
       Element ''img'' [(''src'', [])], Element ''script'' [(''src'', ''https://example.com/a.js'')]])
   \<and> ''https://example.com/a.js'' \<notin> set (validFiles [Element ''img'' [(''src'', ''img/a.png'')],
       Element ''img'' [(''src'', [])], Element ''script'' [(''src'', ''https://example.com/a.js'')]])
   \<and> [] \<notin> set (validFiles [Element ''img'' [(''src'', ''img/a.png'')],
       Element ''img'' [(''src'', [])], Element ''script'' [(''src'', ''https://example.com/a.js'')]])"
  using validFiles_filter [of _ "[Element ''img'' [(''src'', ''img/a.png'')],
       Element ''img'' [(''src'', [])], Element ''script'' [(''src'', ''https://example.com/a.js'')]]"]
  by (simp add: candidateFiles_def listImagesInHtml_def listCssFilesInHtml_def
      listJsFilesInHtml_def select_def IMAGE_SELECTOR_def CSS_SELECTOR_def JS_SELECTOR_def
      attr_def)

lemma map_exn_Inr:
  "map_exn f xs = Inr ys \<Longrightarrow> \<forall>y\<in>set ys. \<exists>x\<in>set xs. f x = Inr y"
proof (induction xs arbitrary: ys)
  case Nil
  then show ?case by simp
next
  case (Cons x xs)
  then show ?case
    by (auto split: sum.splits)
qed

text \<open>
  Claim C10. A reference that is written with a scheme, that is, with a colon after the
  scheme name, is not among the references to download; and every URL handed to
  \<open>downloadFiles\<close> is what \<^verbatim>\<open>new URL(r, baseUrl).href\<close> gives for a candidate reference
  \<open>r\<close> that is not empty and contains no colon.
\<close>

theorem scheme_reference_not_downloaded:
  "(s @ '':'' @ t) \<notin> set (validFiles doc) \<and>
   (resolveFiles env baseUrl doc = Inr files \<longrightarrow>
      (\<forall>f\<in>set files. \<exists>r\<in>set (candidateFiles doc).
          r \<noteq> [] \<and> CHR '':'' \<notin> set r \<and> URL_href env r baseUrl = Inr f))"
proof
  show "(s @ '':'' @ t) \<notin> set (validFiles doc)"
    by (simp add: validFiles_def validFilename_def list_ex_iff)
next
  show "resolveFiles env baseUrl doc = Inr files \<longrightarrow>
      (\<forall>f\<in>set files. \<exists>r\<in>set (candidateFiles doc).
          r \<noteq> [] \<and> CHR '':'' \<notin> set r \<and> URL_href env r baseUrl = Inr f)"
  proof (intro impI ballI)
    fix f
    assume res: "resolveFiles env baseUrl doc = Inr files" and f: "f \<in> set files"
    from map_exn_Inr [OF res [unfolded resolveFiles_def]] f
    obtain r where r: "r \<in> set (validFiles doc)" and h: "URL_href env r baseUrl = Inr f"
      by blast
    from r have "r \<in> set (candidateFiles doc)" "r \<noteq> []" "CHR '':'' \<notin> set r"
      by (auto simp: validFiles_def validFilename_def list_ex_iff)
    with h show "\<exists>r\<in>set (candidateFiles doc).
          r \<noteq> [] \<and> CHR '':'' \<notin> set r \<and> URL_href env r baseUrl = Inr f"
      by blast
  qed
qed

lemma resolveFiles_example:
  "resolveFiles example_env ''https://example.com'' example_page =
     Inr [''https://example.com/a.png'', ''https://example.com/b.css'', ''https://example.com/c.js'']"
  by (simp add: resolveFiles_def validFiles_def validFilename_def candidateFiles_def
      listImagesInHtml_def listCssFilesInHtml_def listJsFilesInHtml_def select_def
      IMAGE_SELECTOR_def CSS_SELECTOR_def JS_SELECTOR_def attr_def
      example_page_def example_env_def lower_def)

text \<open>An instance, on the example page: an absolute URL, a data URL, a download.\<close>

theorem scheme_reference_not_downloaded_witness:
  "''https://example.com/a.png'' \<notin> set (validFiles example_page) \<and>
   ''data:image/png;base64,AAAA'' \<notin> set (validFiles example_page) \<and>
   (\<exists>r\<in>set (candidateFiles example_page).
      r \<noteq> [] \<and> CHR '':'' \<notin> set r \<and>
      URL_href example_env r ''https://example.com'' = Inr ''https://example.com/a.png'')"
  using scheme_reference_not_downloaded [of "''https''" "''//example.com/a.png''" example_page
      example_env "''https://example.com''"
      "[''https://example.com/a.png'', ''https://example.com/b.css'', ''https://example.com/c.js'']"]
    scheme_reference_not_downloaded [of "''data''" "''image/png;base64,AAAA''" example_page
      example_env "''https://example.com''"
      "[''https://example.com/a.png'', ''https://example.com/b.css'', ''https://example.com/c.js'']"]
    resolveFiles_example
  by simp

subsection \<open>Metadata ledger\<close>

lemma META_DB_writeMetaFile: "META_DB (snd (writeMetaFile env s)) = META_DB s"
  by (simp add: writeMetaFile_def Let_def split: prod.splits sum.splits)

lemma META_DB_updateMetaData:
  "META_DB (snd (updateMetaData env u html s)) =
     setMetaData u (cheerio_load env html) (Date_now env (world s)) (META_DB s)"
  by (simp add: updateMetaData_def META_DB_writeMetaFile)

lemma map_of_setMetaData:
  "map_of (setMetaData u doc now db) k =
     (if k = u then Some (createMetaData u doc now db) else map_of db k)"
  by (simp add: setMetaData_def update_conv')

lemma distinct_setMetaData:
  "distinct (map fst db) \<Longrightarrow> distinct (map fst (setMetaData u doc now db))"
  by (simp add: setMetaData_def distinct_update)

text \<open>
  Claim C3. After \<open>updateMetaData\<close> the ledger holds for the URL exactly the entry with
  the counts of \<^verbatim>\<open>a\<close> and \<^verbatim>\<open>img\<close> elements of the given HTML, the current time, and the
  previous number of fetches (0 when the URL was absent) plus one; the other keys are
  unchanged, a key that occurred once still occurs once, and a second update for the same
  URL raises the number of fetches by one again.
\<close>

theorem updateMetaData_entry:
  "map_of (META_DB (snd (updateMetaData env u html s))) u =
     Some \<lparr>url = u,
           num_links = length (filter (\<lambda>e. name e = ''a'') (cheerio_load env html)),
           num_images = length (filter (\<lambda>e. name e = ''img'') (cheerio_load env html)),
           last_fetch = Date_now env (world s),
           num_fetches = (case map_of (META_DB s) u of None \<Rightarrow> 0 | Some m \<Rightarrow> num_fetches m) + 1\<rparr>
   \<and> (\<forall>k. k \<noteq> u \<longrightarrow>
         map_of (META_DB (snd (updateMetaData env u html s))) k = map_of (META_DB s) k)
   \<and> (distinct (map fst (META_DB s)) \<longrightarrow>
         distinct (map fst (META_DB (snd (updateMetaData env u html s)))))
   \<and> prevFetches (META_DB (snd (updateMetaData env u html' (snd (updateMetaData env u html s))))) u
       = prevFetches (META_DB (snd (updateMetaData env u html s))) u + 1"
  by (simp add: META_DB_updateMetaData map_of_setMetaData distinct_setMetaData createMetaData_def
      countFilesInHtml_def countTagsInHtml_def select_def prevFetches_def)

text \<open>An instance: the first update for the example page.\<close>

theorem updateMetaData_entry_witness:
  "distinct (map fst (META_DB example_state)) \<and>
   META_DB (snd (updateMetaData example_env ''https://example.com'' ''page'' example_state)) =
     [(''https://example.com'',
       \<lparr>url = ''https://example.com'', num_links = 1, num_images = 1, last_fetch = 0,
        num_fetches = 1\<rparr>)]"
  using updateMetaData_entry [of example_env "''https://example.com''" "''page''" example_state]
  by (simp add: example_state_def example_env_def example_page_def updateMetaData_def
      writeMetaFile_def setMetaData_def createMetaData_def countFilesInHtml_def
      countTagsInHtml_def select_def prevFetches_def)

subsection \<open>URL validation\<close>

lemma of_char_lower:
  "(of_char (lower c) :: nat) =
     (if 65 \<le> (of_char c :: nat) \<and> (of_char c :: nat) \<le> 90 then of_char c + 32 else of_char c)"
  by (simp add: lower_def Let_def)

lemma lower_eq_non_letter:
  assumes "\<not> (65 \<le> (of_char x :: nat) \<and> (of_char x :: nat) \<le> 122)"
  shows "lower c = x \<longleftrightarrow> c = x"
proof -
  have "lower c = x \<longleftrightarrow> (of_char (lower c) :: nat) = of_char x"
    by (simp only: of_char_eq_iff)
  also have "\<dots> \<longleftrightarrow> (of_char c :: nat) = of_char x"
    using assms by (auto simp: of_char_lower)
  also have "\<dots> \<longleftrightarrow> c = x"
    by (simp only: of_char_eq_iff)
  finally show ?thesis .
qed

lemma lower_colon: "lower c = CHR '':'' \<longleftrightarrow> c = CHR '':''"
  by (rule lower_eq_non_letter) simp

lemma lower_slash: "lower c = CHR ''/'' \<longleftrightarrow> c = CHR ''/''"
  by (rule lower_eq_non_letter) simp

lemma map_lower_separator: "map lower vs = ''://'' \<longleftrightarrow> vs = ''://''"
proof
  assume "map lower vs = ''://''"
  then obtain a b c where "vs = [a, b, c]" "lower a = CHR '':''" "lower b = CHR ''/''" "lower c = CHR ''/''"
    by (auto simp: map_eq_Cons_conv)
  then show "vs = ''://''" by (simp add: lower_colon lower_slash)
next
  assume "vs = ''://''"
  then show "map lower vs = ''://''" by (simp add: lower_def)
qed

lemma map_lower_scheme:
  "map lower xs = p @ ''://'' \<longleftrightarrow> (\<exists>scheme. xs = scheme @ ''://'' \<and> map lower scheme = p)"
proof
  assume "map lower xs = p @ ''://''"
  then have "\<exists>us vs. xs = us @ vs \<and> p = map lower us \<and> ''://'' = map lower vs"
    by (simp only: map_eq_append_conv)
  then obtain us vs where "xs = us @ vs" "map lower us = p" "map lower vs = ''://''"
    by metis
  then have "xs = us @ ''://'' \<and> map lower us = p"
    by (simp only: map_lower_separator)
  then show "\<exists>scheme. xs = scheme @ ''://'' \<and> map lower scheme = p" ..
next
  assume "\<exists>scheme. xs = scheme @ ''://'' \<and> map lower scheme = p"
  then obtain scheme where a: "xs = scheme @ ''://''" and b: "map lower scheme = p" by blast
  have c: "map lower ''://'' = ''://''" by (simp only: map_lower_separator)
  show "map lower xs = p @ ''://''"
    unfolding a map_append b c ..
qed

lemma match_scheme_Some:
  "match_scheme u = Some rest \<longleftrightarrow>
     (\<exists>scheme. u = scheme @ ''://'' @ rest \<and>
        (map lower scheme = ''http'' \<or> map lower scheme = ''https''))"
proof
  assume m: "match_scheme u = Some rest"
  show "\<exists>scheme. u = scheme @ ''://'' @ rest \<and>
        (map lower scheme = ''http'' \<or> map lower scheme = ''https'')"
  proof (cases "map lower (take 8 u) = ''https://''")
    case True
    with m have rest: "rest = drop 8 u" by (simp add: match_scheme_def)
    from True have "map lower (take 8 u) = ''https'' @ ''://''" by simp
    then obtain scheme where t: "take 8 u = scheme @ ''://''" and l: "map lower scheme = ''https''"
      unfolding map_lower_scheme by auto
    have "(scheme @ ''://'') @ drop 8 u = u"
      using append_take_drop_id [of 8 u] unfolding t .
    then have "u = scheme @ ''://'' @ rest" unfolding rest by simp
    with l show ?thesis by auto
  next
    case False
    with m have h: "map lower (take 7 u) = ''http://''" and rest: "rest = drop 7 u"
      by (simp_all add: match_scheme_def split: if_splits)
    from h have "map lower (take 7 u) = ''http'' @ ''://''" by simp
    then obtain scheme where t: "take 7 u = scheme @ ''://''" and l: "map lower scheme = ''http''"
      unfolding map_lower_scheme by auto
    have "(scheme @ ''://'') @ drop 7 u = u"
      using append_take_drop_id [of 7 u] unfolding t .
    then have "u = scheme @ ''://'' @ rest" unfolding rest by simp
    with l show ?thesis by auto
  qed
next
  assume "\<exists>scheme. u = scheme @ ''://'' @ rest \<and>
        (map lower scheme = ''http'' \<or> map lower scheme = ''https'')"
  then obtain scheme where u: "u = scheme @ ''://'' @ rest"
    and l: "map lower scheme = ''http'' \<or> map lower scheme = ''https''" by auto
  from l show "match_scheme u = Some rest"
  proof
    assume h: "map lower scheme = ''http''"
    have "length scheme = length (map lower scheme)" by simp
    with h have len: "length scheme = 4" by simp
    have t7: "take 7 u = scheme @ ''://''" using u len by simp
    have d7: "drop 7 u = rest" using u len by simp
    have t8: "map lower (take 8 u) \<noteq> ''https://''"
    proof
      assume a: "map lower (take 8 u) = ''https://''"
      have "take 5 (map lower (take 8 u)) = map lower (take 5 u)"
        by (simp add: take_map)
      also have "take 5 u = scheme @ '':''" using u len by simp
      finally have "take 5 (map lower (take 8 u)) = ''http:''"
        using h lower_colon [of "CHR '':''"] by simp
      with a show False by simp
    qed
    have "map lower (take 7 u) = ''http://''"
      using t7 h map_lower_separator [of "''://''"] by simp
    with d7 t8 show ?thesis by (simp add: match_scheme_def)
  next
    assume h: "map lower scheme = ''https''"
    have "length scheme = length (map lower scheme)" by simp
    with h have len: "length scheme = 5" by simp
    have t8: "take 8 u = scheme @ ''://''" using u len by simp
    have d8: "drop 8 u = rest" using u len by simp
    have "map lower (take 8 u) = ''https://''"
      using t8 h map_lower_separator [of "''://''"] by simp
    with d8 show ?thesis by (simp add: match_scheme_def)
  qed
qed


lemma ex_shuffle:
  "(\<exists>c1 c2 cs. (\<exists>scheme. A scheme c1 c2 cs \<and> P scheme) \<and> Q c1 c2 cs) \<longleftrightarrow>
   (\<exists>scheme c1 c2 cs. A scheme c1 c2 cs \<and> P scheme \<and> Q c1 c2 cs)"
  by blast

lemma isValidUrl_rest:
  "isValidUrl u \<longleftrightarrow>
     (\<exists>c1 c2 cs. match_scheme u = Some (c1 # c2 # cs) \<and>
        \<not> is_space c1 \<and> c1 \<notin> set ''/$.?#'' \<and> \<not> is_line_terminator c2 \<and>
        (\<forall>c\<in>set cs. \<not> is_space c))"
  by (auto simp: isValidUrl_def list_all_iff split: option.splits list.splits)

lemma refetch_invalid:
  "\<not> isValidUrl u \<Longrightarrow>
   refetchDataFromUrl env appPath u s =
     s\<lparr>logger := logger s @ [Info (''Fetching '' @ u @ '' ...''), Err (u @ '' is invalid URL.'')]\<rparr>"
  by (simp add: refetchDataFromUrl_def mirror_def fetchData_def consoleLog_def consoleError_def)

lemma ex_drop:
  "(\<exists>scheme c1 c2 cs. A scheme c1 c2 cs \<and> P scheme \<and> Q1 c1 \<and> Q2 c1 \<and> L c2 \<and> R cs) \<Longrightarrow>
   (\<exists>scheme c1 c2 cs. A scheme c1 c2 cs \<and> P scheme \<and> Q1 c1 \<and> Q2 c1 \<and> R cs)"
  by blast

lemma ex_mono:
  "(\<And>c. S c \<Longrightarrow> L c) \<Longrightarrow>
   (\<exists>scheme c1 c2 cs. A scheme c1 c2 cs \<and> P scheme \<and> Q1 c1 \<and> Q2 c1 \<and> S c2 \<and> R cs) \<Longrightarrow>
   (\<exists>scheme c1 c2 cs. A scheme c1 c2 cs \<and> P scheme \<and> Q1 c1 \<and> Q2 c1 \<and> L c2 \<and> R cs)"
  by blast

lemma isValidUrl_iff:
  "isValidUrl u \<longleftrightarrow>
      (\<exists>scheme c1 c2 cs.
          u = scheme @ ''://'' @ c1 # c2 # cs \<and>
          (map lower scheme = ''http'' \<or> map lower scheme = ''https'') \<and>
          \<not> is_space c1 \<and> c1 \<notin> set ''/$.?#'' \<and> \<not> is_line_terminator c2 \<and>
          (\<forall>c\<in>set cs. \<not> is_space c))"
  unfolding isValidUrl_rest match_scheme_Some by (rule ex_shuffle)

lemma line_terminator_is_space: "\<not> is_space c \<Longrightarrow> \<not> is_line_terminator c"
  by (simp add: is_space_def is_line_terminator_def)

text \<open>
  Claim C7, as amended. Every string that \<open>isValidUrl\<close> accepts consists of \<^verbatim>\<open>http\<close> or
  \<^verbatim>\<open>https\<close> in any letter case, \<^verbatim>\<open>://\<close>, a character that is neither white space nor one
  of \<^verbatim>\<open>/ $ . ? #\<close>, one more character, and then characters that are not white space. Every
  string of that form in which the second character after \<^verbatim>\<open>://\<close> is not white space
  either is accepted. For a string that \<open>isValidUrl\<close> rejects, \<open>refetchDataFromUrl\<close> only
  adds two entries to the log, the second one the error: nothing outside the process is
  touched and the ledger is unchanged.
\<close>

theorem isValidUrl_pattern:
  "(isValidUrl u \<longrightarrow>
      (\<exists>scheme c1 c2 cs.
          u = scheme @ ''://'' @ c1 # c2 # cs \<and>
          (map lower scheme = ''http'' \<or> map lower scheme = ''https'') \<and>
          \<not> is_space c1 \<and> c1 \<notin> set ''/$.?#'' \<and>
          (\<forall>c\<in>set cs. \<not> is_space c)))
   \<and> ((\<exists>scheme c1 c2 cs.
          u = scheme @ ''://'' @ c1 # c2 # cs \<and>
          (map lower scheme = ''http'' \<or> map lower scheme = ''https'') \<and>
          \<not> is_space c1 \<and> c1 \<notin> set ''/$.?#'' \<and> \<not> is_space c2 \<and>
          (\<forall>c\<in>set cs. \<not> is_space c)) \<longrightarrow> isValidUrl u)
   \<and> (\<not> isValidUrl u \<longrightarrow>
        refetchDataFromUrl env appPath u s =
          s\<lparr>logger := logger s @
             [Info (''Fetching '' @ u @ '' ...''), Err (u @ '' is invalid URL.'')]\<rparr>)"
proof (intro conjI impI)
  assume "isValidUrl u"
  then have "\<exists>scheme c1 c2 cs.
          u = scheme @ ''://'' @ c1 # c2 # cs \<and>
          (map lower scheme = ''http'' \<or> map lower scheme = ''https'') \<and>
          \<not> is_space c1 \<and> c1 \<notin> set ''/$.?#'' \<and> \<not> is_line_terminator c2 \<and>
          (\<forall>c\<in>set cs. \<not> is_space c)"
    by (simp only: isValidUrl_iff)
  then show "\<exists>scheme c1 c2 cs.
          u = scheme @ ''://'' @ c1 # c2 # cs \<and>
          (map lower scheme = ''http'' \<or> map lower scheme = ''https'') \<and>
          \<not> is_space c1 \<and> c1 \<notin> set ''/$.?#'' \<and>
          (\<forall>c\<in>set cs. \<not> is_space c)"
    by (rule ex_drop)
next
  assume "\<exists>scheme c1 c2 cs.
          u = scheme @ ''://'' @ c1 # c2 # cs \<and>
          (map lower scheme = ''http'' \<or> map lower scheme = ''https'') \<and>
          \<not> is_space c1 \<and> c1 \<notin> set ''/$.?#'' \<and> \<not> is_space c2 \<and>
          (\<forall>c\<in>set cs. \<not> is_space c)"
  then have "\<exists>scheme c1 c2 cs.
          u = scheme @ ''://'' @ c1 # c2 # cs \<and>
          (map lower scheme = ''http'' \<or> map lower scheme = ''https'') \<and>
          \<not> is_space c1 \<and> c1 \<notin> set ''/$.?#'' \<and> \<not> is_line_terminator c2 \<and>
          (\<forall>c\<in>set cs. \<not> is_space c)"
    by (rule ex_mono [rotated]) (rule line_terminator_is_space)
  then show "isValidUrl u" by (simp only: isValidUrl_iff)
next
  assume "\<not> isValidUrl u"
  then show "refetchDataFromUrl env appPath u s =
          s\<lparr>logger := logger s @
             [Info (''Fetching '' @ u @ '' ...''), Err (u @ '' is invalid URL.'')]\<rparr>"
    by (rule refetch_invalid)
qed

text \<open>An instance: an accepted URL, and a rejected one with the run it gives.\<close>

theorem isValidUrl_pattern_witness:
  "isValidUrl ''https://example.com'' \<and> \<not> isValidUrl ''ftp://example.com'' \<and>
   refetchDataFromUrl example_env ''fetch-site-cli'' ''ftp://example.com'' example_state =
     \<lparr>META_DB = [],
      logger = [Info ''Fetching ftp://example.com ...'', Err ''ftp://example.com is invalid URL.''],
      world = []\<rparr>"
proof -
  have "\<exists>scheme c1 c2 cs.
          ''https://example.com'' = scheme @ ''://'' @ c1 # c2 # cs \<and>
          (map lower scheme = ''http'' \<or> map lower scheme = ''https'') \<and>
          \<not> is_space c1 \<and> c1 \<notin> set ''/$.?#'' \<and> \<not> is_space c2 \<and>
          (\<forall>c\<in>set cs. \<not> is_space c)"
    by (rule exI [of _ "''https''"], rule exI [of _ "CHR ''e''"], rule exI [of _ "CHR ''x''"],
        rule exI [of _ "''ample.com''"]) (simp add: lower_def is_space_def)
  then have 1: "isValidUrl ''https://example.com''"
    by (rule isValidUrl_pattern [of "''https://example.com''", THEN conjunct2, THEN conjunct1, THEN mp])
  have 2: "\<not> isValidUrl ''ftp://example.com''"
    by (simp add: isValidUrl_def match_scheme_def lower_def)
  note 3 = isValidUrl_pattern [of "''ftp://example.com''" example_env "''fetch-site-cli''" example_state,
      THEN conjunct2, THEN conjunct2, THEN mp, OF 2]
  from 1 2 3 show ?thesis by (simp add: example_state_def)
qed

text \<open>
  Two strings with scheme \<^verbatim>\<open>http\<close>, a host that is not empty and no white space are
  rejected: the host of one has a single letter, the host of the other starts with a dot.
  A string with a space in the second position after \<^verbatim>\<open>://\<close> is accepted.
\<close>

theorem isValidUrl_pattern_counterexample:
  "\<not> isValidUrl ''http://a'' \<and> list_all (\<lambda>c. \<not> is_space c) ''http://a'' \<and>
   \<not> isValidUrl ''http://.a'' \<and> list_all (\<lambda>c. \<not> is_space c) ''http://.a'' \<and>
   isValidUrl ''http://a b'' \<and> is_space (''http://a b'' ! 8)"
  by (simp add: isValidUrl_def match_scheme_def lower_def is_space_def is_line_terminator_def)

subsection \<open>Resource downloader and mirroring pipeline\<close>

lemmas path_defs = path_join_def path_normalize_def normalizeString_def normalize_step_def
  path_dirname_def Let_def

lemma example_paths:
  "path_join ''fetch-site-cli'' ''example_com'' = ''fetch-site-cli/example_com''"
  "path_join ''fetch-site-cli'' ''example.com.html'' = ''fetch-site-cli/example.com.html''"
  "path_join ''fetch-site-cli/example_com'' ''/a.png'' = ''fetch-site-cli/example_com/a.png''"
  "path_join ''fetch-site-cli/example_com'' ''/c.js'' = ''fetch-site-cli/example_com/c.js''"
  "path_dirname ''fetch-site-cli/example.com.html'' = ''fetch-site-cli''"
  "path_dirname ''fetch-site-cli/example_com/a.png'' = ''fetch-site-cli/example_com''"
  "path_dirname ''fetch-site-cli/example_com/c.js'' = ''fetch-site-cli/example_com''"
  "path_join APP_ROOT_PATH META_FILE = ''fetch-site-cli/meta.json''"
  by (simp_all add: path_defs APP_ROOT_PATH_def META_FILE_def)

lemma example_valid: "isValidUrl ''https://example.com''" "isValidUrl ''https://example.org''"
  by (simp_all add: isValidUrl_def match_scheme_def lower_def is_space_def is_line_terminator_def)

lemma example_names:
  "urlToFilename ''https://example.com'' = ''example.com.html''"
  "urlToSiteBaseUrl ''https://example.com'' = ''example_com''"
  by (simp_all add: urlToFilename_def urlToSiteBaseUrl_def replace_all_def strip_scheme_def startsWith_def)

lemma safeWriteFile_frame:
  "safeWriteFile env p c s = (r, s') \<Longrightarrow> META_DB s' = META_DB s \<and> logger s' = logger s"
  by (auto simp: safeWriteFile_def Let_def split: prod.splits sum.splits)

lemma downloadFile_frame:
  assumes "downloadFile env dir u i s = (r, s')"
  shows "META_DB s' = META_DB s"
    and "set (logger s) \<subseteq> set (logger s')"
    and "Info (''Downloading: '' @ u) \<in> set (logger s')"
    and "r = Inr () \<Longrightarrow>
           Info (''File #'' @ decimal (i + 1) @ '' downloaded successfully.'') \<in> set (logger s')"
  using assms
  by (auto simp: downloadFile_def Let_def consoleLog_def
      split: prod.splits sum.splits dest!: safeWriteFile_frame)

lemma downloadTask_frame:
  assumes "downloadTask env dir u i s = (r, s')"
  shows "r = Inr ()"
    and "META_DB s' = META_DB s"
    and "set (logger s) \<subseteq> set (logger s')"
    and "Info (''Downloading: '' @ u) \<in> set (logger s')"
    and "Info (''File #'' @ decimal (i + 1) @ '' downloaded successfully.'') \<in> set (logger s') \<or>
         Err (''Error downloading file '' @ decimal (i + 1) @ '': '' @ u) \<in> set (logger s')"
proof -
  obtain r0 s0 where d: "downloadFile env dir u i s = (r0, s0)"
    by (cases "downloadFile env dir u i s")
  note f = downloadFile_frame [OF d]
  show "r = Inr ()" using assms d by (auto simp: downloadTask_def split: sum.splits)
  show "META_DB s' = META_DB s"
    using assms d f(1) by (auto simp: downloadTask_def consoleError_def split: sum.splits)
  show "set (logger s) \<subseteq> set (logger s')"
    using assms d f(2) by (auto simp: downloadTask_def consoleError_def split: sum.splits)
  show "Info (''Downloading: '' @ u) \<in> set (logger s')"
    using assms d f(3) by (auto simp: downloadTask_def consoleError_def split: sum.splits)
  show "Info (''File #'' @ decimal (i + 1) @ '' downloaded successfully.'') \<in> set (logger s') \<or>
         Err (''Error downloading file '' @ decimal (i + 1) @ '': '' @ u) \<in> set (logger s')"
    using assms d f(4) by (auto simp: downloadTask_def consoleError_def split: sum.splits)
qed

lemma Promise_all_fulfilled: "Promise_all (replicate n (Inr ())) = Inr ()"
  by (induction n) simp_all

lemma run_download_tasks:
  assumes "run_tasks (map (\<lambda>(u, i). downloadTask env dir u i) tasks) s = (rs, s')"
  shows "rs = replicate (length tasks) (Inr ()) \<and> META_DB s' = META_DB s \<and>
         set (logger s) \<subseteq> set (logger s') \<and>
         (\<forall>(u, i)\<in>set tasks.
            Info (''Downloading: '' @ u) \<in> set (logger s') \<and>
            (Info (''File #'' @ decimal (i + 1) @ '' downloaded successfully.'') \<in> set (logger s') \<or>
             Err (''Error downloading file '' @ decimal (i + 1) @ '': '' @ u) \<in> set (logger s')))"
  using assms
proof (induction tasks arbitrary: s rs s')
  case Nil
  then show ?case by simp
next
  case (Cons t tasks)
  obtain u i where t: "t = (u, i)" by (cases t)
  obtain r1 s1 where d: "downloadTask env dir u i s = (r1, s1)"
    by (cases "downloadTask env dir u i s")
  obtain rs2 s2 where r: "run_tasks (map (\<lambda>(u, i). downloadTask env dir u i) tasks) s1 = (rs2, s2)"
    by (cases "run_tasks (map (\<lambda>(u, i). downloadTask env dir u i) tasks) s1")
  from Cons.prems t d r have eq: "rs = r1 # rs2" "s' = s2" by simp_all
  note f = downloadTask_frame [OF d]
  note ih = Cons.IH [OF r]
  show ?case
    unfolding eq t using f ih by auto
qed

lemma META_DB_consoleLog: "META_DB (consoleLog msg s) = META_DB s"
  by (simp add: consoleLog_def)

lemma META_DB_consoleError: "META_DB (consoleError msg s) = META_DB s"
  by (simp add: consoleError_def)

lemma META_DB_fetchData: "META_DB (snd (fetchData env u s)) = META_DB s"
  by (simp add: fetchData_def consoleLog_def split: prod.splits sum.splits exn.splits)

lemma META_DB_safeWriteFile: "META_DB (snd (safeWriteFile env p c s)) = META_DB s"
  using safeWriteFile_frame [of env p c s] by (cases "safeWriteFile env p c s") simp

lemma META_DB_writeFile: "META_DB (snd (writeFile env c p s)) = META_DB s"
proof -
  have "META_DB (snd (safeWriteFile env p c s)) = META_DB s"
    by (rule META_DB_safeWriteFile)
  then show ?thesis
    by (auto simp: writeFile_def consoleLog_def split: prod.splits sum.splits)
qed

lemma META_DB_createSiteDirectory: "META_DB (snd (createSiteDirectory env appPath u s)) = META_DB s"
  by (simp add: createSiteDirectory_def Let_def split: prod.splits sum.splits)

lemma downloadFiles_run:
  "downloadFiles env urls dir s =
     (Inr (), snd (run_tasks (map (\<lambda>(u, i). downloadTask env dir u i) (zip urls [0..<length urls])) s))"
proof -
  obtain rs s' where r:
    "run_tasks (map (\<lambda>(u, i). downloadTask env dir u i) (zip urls [0..<length urls])) s = (rs, s')"
    by (cases "run_tasks (map (\<lambda>(u, i). downloadTask env dir u i) (zip urls [0..<length urls])) s")
  from run_download_tasks [OF r] have "Promise_all rs = Inr ()"
    by (simp add: Promise_all_fulfilled)
  with r show ?thesis by (simp add: downloadFiles_def)
qed

lemma refetch_after_page:
  assumes f: "fetchData env u (consoleLog (''Fetching '' @ u @ '' ...'') t) = (Inr html, t1)"
    and c: "createSiteDirectory env appPath u t1 = (Inr sitePath, t2)"
    and w: "writeFile env
         (cheerio_html env (modifyHtmlContent (cheerio_load env html) (urlToSiteBaseUrl u)))
         (path_join appPath (urlToFilename u)) t2 = (Inr (), t3)"
    and v: "resolveFiles env u (cheerio_load env html) = Inr files"
  shows "\<exists>now. META_DB (refetchDataFromUrl env appPath u t) =
           setMetaData u (cheerio_load env html) now (META_DB t)"
proof -
  have m1: "META_DB t1 = META_DB t"
    using META_DB_fetchData [of env u "consoleLog (''Fetching '' @ u @ '' ...'') t"] f
    by (simp add: META_DB_consoleLog)
  have m2: "META_DB t2 = META_DB t1"
    using META_DB_createSiteDirectory [of env appPath u t1] c by simp
  have m3: "META_DB t3 = META_DB t2"
    using META_DB_writeFile [of env
        "cheerio_html env (modifyHtmlContent (cheerio_load env html) (urlToSiteBaseUrl u))"
        "path_join appPath (urlToFilename u)" t2] w by simp
  obtain rs t4 where r:
    "run_tasks (map (\<lambda>(u, i). downloadTask env sitePath u i) (zip files [0..<length files])) t3 = (rs, t4)"
    by (cases "run_tasks (map (\<lambda>(u, i). downloadTask env sitePath u i) (zip files [0..<length files])) t3")
  have d: "downloadFilesInHtml env u html sitePath t3 = (Inr (), t4)"
    using v r by (simp add: downloadFilesInHtml_def downloadFiles_run)
  have m4: "META_DB t4 = META_DB t3"
    using run_download_tasks [OF r] by simp
  obtain r5 t5 where up: "updateMetaData env u html t4 = (r5, t5)"
    by (cases "updateMetaData env u html t4")
  have m5: "META_DB t5 = setMetaData u (cheerio_load env html) (Date_now env (world t4)) (META_DB t4)"
    using META_DB_updateMetaData [of env u html t4] up by simp
  have "mirror env appPath u t = (r5, t5)"
    using f c w d up by (simp add: mirror_def Let_def)
  then have "META_DB (refetchDataFromUrl env appPath u t) = META_DB t5"
    by (cases r5) (simp_all add: refetchDataFromUrl_def META_DB_consoleError)
  with m1 m2 m3 m4 m5 show ?thesis by auto
qed

lemma downloadTask_catch:
  "downloadFile env dir u i s = (Inl e, s') \<Longrightarrow>
   downloadTask env dir u i s =
     (Inr (),
      s'\<lparr>logger := logger s' @
         [Err (''Error downloading file '' @ decimal (i + 1) @ '': '' @ u),
          Err (''  Details: '' @ message e)]\<rparr>)"
  "downloadFile env dir u i s = (Inr (), s') \<Longrightarrow> downloadTask env dir u i s = (Inr (), s')"
  by (simp_all add: downloadTask_def consoleError_def)

lemma downloadFiles_returns:
  "fst (downloadFiles env urls dir s) = Inr ()
   \<and> fst (run_tasks (map (\<lambda>(url', index). downloadTask env dir url' index)
              (zip urls [0..<length urls])) s) = replicate (length urls) (Inr ())
   \<and> META_DB (snd (downloadFiles env urls dir s)) = META_DB s
   \<and> (\<forall>i<length urls.
         Info (''Downloading: '' @ urls ! i) \<in> set (logger (snd (downloadFiles env urls dir s))) \<and>
         (Info (''File #'' @ decimal (i + 1) @ '' downloaded successfully.'')
            \<in> set (logger (snd (downloadFiles env urls dir s))) \<or>
          Err (''Error downloading file '' @ decimal (i + 1) @ '': '' @ urls ! i)
            \<in> set (logger (snd (downloadFiles env urls dir s)))))"
proof -
  obtain rs s' where r:
    "run_tasks (map (\<lambda>(u, i). downloadTask env dir u i) (zip urls [0..<length urls])) s = (rs, s')"
    by (cases "run_tasks (map (\<lambda>(u, i). downloadTask env dir u i) (zip urls [0..<length urls])) s")
  note p = run_download_tasks [OF r]
  have d: "downloadFiles env urls dir s = (Inr (), s')"
    using r by (simp add: downloadFiles_run)
  have a: "fst (downloadFiles env urls dir s) = Inr ()" using d by simp
  have b: "fst (run_tasks (map (\<lambda>(url', index). downloadTask env dir url' index)
              (zip urls [0..<length urls])) s) = replicate (length urls) (Inr ())"
    using r p by simp
  have c: "META_DB (snd (downloadFiles env urls dir s)) = META_DB s"
    using d p by simp
  have e: "\<forall>i<length urls.
         Info (''Downloading: '' @ urls ! i) \<in> set (logger (snd (downloadFiles env urls dir s))) \<and>
         (Info (''File #'' @ decimal (i + 1) @ '' downloaded successfully.'')
            \<in> set (logger (snd (downloadFiles env urls dir s))) \<or>
          Err (''Error downloading file '' @ decimal (i + 1) @ '': '' @ urls ! i)
            \<in> set (logger (snd (downloadFiles env urls dir s))))"
  proof (intro allI impI)
    fix i assume i: "i < length urls"
    then have "(urls ! i, i) \<in> set (zip urls [0..<length urls])"
      by (auto simp: in_set_zip)
    with p have "Info (''Downloading: '' @ urls ! i) \<in> set (logger s') \<and>
            (Info (''File #'' @ decimal (i + 1) @ '' downloaded successfully.'') \<in> set (logger s') \<or>
             Err (''Error downloading file '' @ decimal (i + 1) @ '': '' @ urls ! i) \<in> set (logger s'))"
      by fastforce
    then show "Info (''Downloading: '' @ urls ! i) \<in> set (logger (snd (downloadFiles env urls dir s))) \<and>
         (Info (''File #'' @ decimal (i + 1) @ '' downloaded successfully.'')
            \<in> set (logger (snd (downloadFiles env urls dir s))) \<or>
          Err (''Error downloading file '' @ decimal (i + 1) @ '': '' @ urls ! i)
            \<in> set (logger (snd (downloadFiles env urls dir s))))"
      using d by simp
  qed
  from a b c e show ?thesis by (intro conjI)
qed

text \<open>
  Claim C1 does not hold of the code. Inside \<open>downloadFiles\<close> every task catches its own
  failure, an unparsable URL included, and the other tasks run (the lemmas above and the
  last part below). But \<open>downloadFilesInHtml\<close> resolves the references with
  \<^verbatim>\<open>new URL(url, baseUrl)\<close> before it calls \<open>downloadFiles\<close>, outside every \<^verbatim>\<open>try\<close> but
  the one of \<open>refetchDataFromUrl\<close>: on the page with the references \<^verbatim>\<open>//\<close> and
  \<^verbatim>\<open>ok.png\<close> the page file is written, then the first reference throws, \<^verbatim>\<open>ok.png\<close> is
  never requested and the ledger stays empty.
\<close>

theorem mirror_unresolvable_reference:
  "validFiles unresolvable_page = [''//'', ''ok.png''] \<and>
   refetchDataFromUrl unresolvable_env ''fetch-site-cli'' ''https://example.com'' example_state =
     \<lparr>META_DB = [],
      logger = [Info ''Fetching https://example.com ...'',
                Info ''Content fetched from https://example.com successfully.'',
                Info ''Data written to fetch-site-cli/example.com.html successfully.'',
                Err ''Invalid URL''],
      world = [Request ''https://example.com'', Mkdir ''fetch-site-cli/example_com'',
               Mkdir ''fetch-site-cli'',
               Write ''fetch-site-cli/example.com.html'' ''rewritten page'']\<rparr> \<and>
   downloadFiles unresolvable_env [''//'', ''https://example.com/ok.png'']
       ''fetch-site-cli/example_com'' example_state =
     (Inr (),
      \<lparr>META_DB = [],
       logger = [Info ''Downloading: //'',
                 Err ''Error downloading file 1: //'',
                 Err ''  Details: Invalid URL'',
                 Info ''Downloading: https://example.com/ok.png'',
                 Info ''File #2 downloaded successfully.''],
       world = [Request ''https://example.com/ok.png'', Mkdir ''fetch-site-cli/example_com'',
                Write ''fetch-site-cli/example_com/ok.png'' ''bytes'']\<rparr>)"
proof -
  have v: "validFiles unresolvable_page = [''//'', ''ok.png'']"
    by (simp add: validFiles_def validFilename_def candidateFiles_def listImagesInHtml_def
        listCssFilesInHtml_def listJsFilesInHtml_def select_def IMAGE_SELECTOR_def
        CSS_SELECTOR_def JS_SELECTOR_def attr_def unresolvable_page_def)
  have p: "path_join ''fetch-site-cli/example_com'' ''/ok.png'' = ''fetch-site-cli/example_com/ok.png''"
    "path_dirname ''fetch-site-cli/example_com/ok.png'' = ''fetch-site-cli/example_com''"
    by (simp_all add: path_defs)
  have r: "refetchDataFromUrl unresolvable_env ''fetch-site-cli'' ''https://example.com'' example_state =
     \<lparr>META_DB = [],
      logger = [Info ''Fetching https://example.com ...'',
                Info ''Content fetched from https://example.com successfully.'',
                Info ''Data written to fetch-site-cli/example.com.html successfully.'',
                Err ''Invalid URL''],
      world = [Request ''https://example.com'', Mkdir ''fetch-site-cli/example_com'',
               Mkdir ''fetch-site-cli'',
               Write ''fetch-site-cli/example.com.html'' ''rewritten page'']\<rparr>"
    by (simp add: refetchDataFromUrl_def mirror_def fetchData_def createSiteDirectory_def
        writeFile_def safeWriteFile_def downloadFilesInHtml_def resolveFiles_def v
        consoleLog_def consoleError_def example_valid example_names example_paths
        replace_all_def strip_scheme_def startsWith_def
        unresolvable_env_def example_env_def example_state_def Let_def)
  have d: "downloadFiles unresolvable_env [''//'', ''https://example.com/ok.png'']
       ''fetch-site-cli/example_com'' example_state =
     (Inr (),
      \<lparr>META_DB = [],
       logger = [Info ''Downloading: //'',
                 Err ''Error downloading file 1: //'',
                 Err ''  Details: Invalid URL'',
                 Info ''Downloading: https://example.com/ok.png'',
                 Info ''File #2 downloaded successfully.''],
       world = [Request ''https://example.com/ok.png'', Mkdir ''fetch-site-cli/example_com'',
                Write ''fetch-site-cli/example_com/ok.png'' ''bytes'']\<rparr>)"
    by (simp add: downloadFiles_def downloadTask_def downloadFile_def safeWriteFile_def
        consoleLog_def consoleError_def unresolvable_env_def example_env_def example_state_def
        p upt_rec decimal.simps)
  from v r d show ?thesis by (intro conjI)
qed

lemma last_consoleError: "last (logger (consoleError msg s)) = Err msg"
  by (simp add: consoleError_def)

text \<open>
  Claim C2. When \<open>fetchData\<close> throws (an invalid URL included), or \<open>createSiteDirectory\<close>
  throws, or the write of the page file throws, \<open>refetchDataFromUrl\<close> leaves the ledger
  as it was and the last entry of the log is the message of the error.
\<close>

theorem page_failure_leaves_ledger:
  "(fetchData env u (consoleLog (''Fetching '' @ u @ '' ...'') s) = (Inl e, s1) \<longrightarrow>
      META_DB (refetchDataFromUrl env appPath u s) = META_DB s \<and>
      last (logger (refetchDataFromUrl env appPath u s)) = Err (message e))
   \<and> (fetchData env u (consoleLog (''Fetching '' @ u @ '' ...'') s) = (Inr html, s1) \<and>
       createSiteDirectory env appPath u s1 = (Inl e, s2) \<longrightarrow>
      META_DB (refetchDataFromUrl env appPath u s) = META_DB s \<and>
      last (logger (refetchDataFromUrl env appPath u s)) = Err (message e))
   \<and> (fetchData env u (consoleLog (''Fetching '' @ u @ '' ...'') s) = (Inr html, s1) \<and>
       createSiteDirectory env appPath u s1 = (Inr sitePath, s2) \<and>
       writeFile env
         (cheerio_html env (modifyHtmlContent (cheerio_load env html) (urlToSiteBaseUrl u)))
         (path_join appPath (urlToFilename u)) s2 = (Inl e, s3) \<longrightarrow>
      META_DB (refetchDataFromUrl env appPath u s) = META_DB s \<and>
      last (logger (refetchDataFromUrl env appPath u s)) = Err (message e))"
proof (intro conjI impI)
  assume f: "fetchData env u (consoleLog (''Fetching '' @ u @ '' ...'') s) = (Inl e, s1)"
  have m: "META_DB s1 = META_DB s"
    using META_DB_fetchData [of env u "consoleLog (''Fetching '' @ u @ '' ...'') s"] f
    by (simp add: META_DB_consoleLog)
  have r: "refetchDataFromUrl env appPath u s = consoleError (message e) s1"
    using f by (simp add: refetchDataFromUrl_def mirror_def)
  show "META_DB (refetchDataFromUrl env appPath u s) = META_DB s"
    by (simp add: r m META_DB_consoleError)
  show "last (logger (refetchDataFromUrl env appPath u s)) = Err (message e)"
    by (simp add: r last_consoleError)
next
  assume "fetchData env u (consoleLog (''Fetching '' @ u @ '' ...'') s) = (Inr html, s1) \<and>
       createSiteDirectory env appPath u s1 = (Inl e, s2)"
  then have f: "fetchData env u (consoleLog (''Fetching '' @ u @ '' ...'') s) = (Inr html, s1)"
    and c: "createSiteDirectory env appPath u s1 = (Inl e, s2)" by simp_all
  have m1: "META_DB s1 = META_DB s"
    using META_DB_fetchData [of env u "consoleLog (''Fetching '' @ u @ '' ...'') s"] f
    by (simp add: META_DB_consoleLog)
  have m2: "META_DB s2 = META_DB s1"
    using META_DB_createSiteDirectory [of env appPath u s1] c by simp
  have r: "refetchDataFromUrl env appPath u s = consoleError (message e) s2"
    using f c by (simp add: refetchDataFromUrl_def mirror_def)
  show "META_DB (refetchDataFromUrl env appPath u s) = META_DB s"
    by (simp add: r m1 m2 META_DB_consoleError)
  show "last (logger (refetchDataFromUrl env appPath u s)) = Err (message e)"
    by (simp add: r last_consoleError)
next
  assume "fetchData env u (consoleLog (''Fetching '' @ u @ '' ...'') s) = (Inr html, s1) \<and>
       createSiteDirectory env appPath u s1 = (Inr sitePath, s2) \<and>
       writeFile env
         (cheerio_html env (modifyHtmlContent (cheerio_load env html) (urlToSiteBaseUrl u)))
         (path_join appPath (urlToFilename u)) s2 = (Inl e, s3)"
  then have f: "fetchData env u (consoleLog (''Fetching '' @ u @ '' ...'') s) = (Inr html, s1)"
    and c: "createSiteDirectory env appPath u s1 = (Inr sitePath, s2)"
    and w: "writeFile env
         (cheerio_html env (modifyHtmlContent (cheerio_load env html) (urlToSiteBaseUrl u)))
         (path_join appPath (urlToFilename u)) s2 = (Inl e, s3)" by simp_all
  have m1: "META_DB s1 = META_DB s"
    using META_DB_fetchData [of env u "consoleLog (''Fetching '' @ u @ '' ...'') s"] f
    by (simp add: META_DB_consoleLog)
  have m2: "META_DB s2 = META_DB s1"
    using META_DB_createSiteDirectory [of env appPath u s1] c by simp
  have m3: "META_DB s3 = META_DB s2"
    using META_DB_writeFile [of env
        "cheerio_html env (modifyHtmlContent (cheerio_load env html) (urlToSiteBaseUrl u))"
        "path_join appPath (urlToFilename u)" s2] w by simp
  have r: "refetchDataFromUrl env appPath u s = consoleError (message e) s3"
    using f c w by (simp add: refetchDataFromUrl_def mirror_def Let_def)
  show "META_DB (refetchDataFromUrl env appPath u s) = META_DB s"
    by (simp add: r m1 m2 m3 META_DB_consoleError)
  show "last (logger (refetchDataFromUrl env appPath u s)) = Err (message e)"
    by (simp add: r last_consoleError)
qed


text \<open>
  Instances: a host that does not answer; a file system that refuses to make directories;
  a file system that refuses to write files.
\<close>

theorem page_failure_leaves_ledger_witness:
  "META_DB (refetchDataFromUrl example_env ''fetch-site-cli'' ''https://example.org''
        example_state) = META_DB example_state
   \<and> last (logger (refetchDataFromUrl example_env ''fetch-site-cli'' ''https://example.org''
        example_state)) = Err ''https://example.org is invalid URL.''
   \<and> META_DB (refetchDataFromUrl (example_env\<lparr>fs_mkdir := \<lambda>p w. (Inl (Error ''EACCES''), w)\<rparr>)
        ''fetch-site-cli'' ''https://example.com'' example_state) = META_DB example_state
   \<and> last (logger (refetchDataFromUrl (example_env\<lparr>fs_mkdir := \<lambda>p w. (Inl (Error ''EACCES''), w)\<rparr>)
        ''fetch-site-cli'' ''https://example.com'' example_state)) = Err ''EACCES''
   \<and> META_DB (refetchDataFromUrl (example_env\<lparr>fs_writeFile := \<lambda>p c w. (Inl (Error ''ENOSPC''), w)\<rparr>)
        ''fetch-site-cli'' ''https://example.com'' example_state) = META_DB example_state
   \<and> last (logger (refetchDataFromUrl (example_env\<lparr>fs_writeFile := \<lambda>p c w. (Inl (Error ''ENOSPC''), w)\<rparr>)
        ''fetch-site-cli'' ''https://example.com'' example_state)) = Err ''ENOSPC''"
proof -
  note defs = fetchData_def createSiteDirectory_def writeFile_def safeWriteFile_def
    consoleLog_def example_valid example_names example_paths replace_all_def strip_scheme_def
    startsWith_def example_env_def example_state_def Let_def
  have 1: "META_DB (refetchDataFromUrl example_env ''fetch-site-cli'' ''https://example.org''
        example_state) = META_DB example_state
   \<and> last (logger (refetchDataFromUrl example_env ''fetch-site-cli'' ''https://example.org''
        example_state)) = Err (message (Error ''https://example.org is invalid URL.''))"
    by (rule page_failure_leaves_ledger [where env = example_env and u = "''https://example.org''"
        and s = example_state and e = "Error ''https://example.org is invalid URL.''"
        and ?s1.0 = "\<lparr>META_DB = [], logger = [Info ''Fetching https://example.org ...''],
          world = [Request ''https://example.org'']\<rparr>"
        and appPath = "''fetch-site-cli''", THEN conjunct1, THEN mp])
      (simp add: defs)
  have 2: "META_DB (refetchDataFromUrl (example_env\<lparr>fs_mkdir := \<lambda>p w. (Inl (Error ''EACCES''), w)\<rparr>)
        ''fetch-site-cli'' ''https://example.com'' example_state) = META_DB example_state
   \<and> last (logger (refetchDataFromUrl (example_env\<lparr>fs_mkdir := \<lambda>p w. (Inl (Error ''EACCES''), w)\<rparr>)
        ''fetch-site-cli'' ''https://example.com'' example_state)) = Err (message (Error ''EACCES''))"
    by (rule page_failure_leaves_ledger [where u = "''https://example.com''"
        and s = example_state and e = "Error ''EACCES''" and html = "''page''"
        and ?s1.0 = "\<lparr>META_DB = [],
          logger = [Info ''Fetching https://example.com ...'',
                    Info ''Content fetched from https://example.com successfully.''],
          world = [Request ''https://example.com'']\<rparr>"
        and ?s2.0 = "\<lparr>META_DB = [],
          logger = [Info ''Fetching https://example.com ...'',
                    Info ''Content fetched from https://example.com successfully.''],
          world = [Request ''https://example.com'']\<rparr>"
        and appPath = "''fetch-site-cli''", THEN conjunct2, THEN conjunct1, THEN mp])
      (simp add: defs)
  have 3: "META_DB (refetchDataFromUrl (example_env\<lparr>fs_writeFile := \<lambda>p c w. (Inl (Error ''ENOSPC''), w)\<rparr>)
        ''fetch-site-cli'' ''https://example.com'' example_state) = META_DB example_state
   \<and> last (logger (refetchDataFromUrl (example_env\<lparr>fs_writeFile := \<lambda>p c w. (Inl (Error ''ENOSPC''), w)\<rparr>)
        ''fetch-site-cli'' ''https://example.com'' example_state)) = Err (message (Error ''ENOSPC''))"
    by (rule page_failure_leaves_ledger [where u = "''https://example.com''"
        and s = example_state and e = "Error ''ENOSPC''" and html = "''page''"
        and sitePath = "''fetch-site-cli/example_com''"
        and ?s1.0 = "\<lparr>META_DB = [],
          logger = [Info ''Fetching https://example.com ...'',
                    Info ''Content fetched from https://example.com successfully.''],
          world = [Request ''https://example.com'']\<rparr>"
        and ?s2.0 = "\<lparr>META_DB = [],
          logger = [Info ''Fetching https://example.com ...'',
                    Info ''Content fetched from https://example.com successfully.''],
          world = [Request ''https://example.com'', Mkdir ''fetch-site-cli/example_com'']\<rparr>"
        and ?s3.0 = "\<lparr>META_DB = [],
          logger = [Info ''Fetching https://example.com ...'',
                    Info ''Content fetched from https://example.com successfully.''],
          world = [Request ''https://example.com'', Mkdir ''fetch-site-cli/example_com'',
                   Mkdir ''fetch-site-cli'']\<rparr>"
        and appPath = "''fetch-site-cli''", THEN conjunct2, THEN conjunct2, THEN mp])
      (simp add: defs)
  from 1 2 3 show ?thesis by simp
qed

subsection \<open>Reachable ledgers\<close>

lemma set_update_subset: "set (AList.update k v al) \<subseteq> insert (k, v) (set al)"
  by (induction al) auto

lemma update_fresh: "k \<notin> fst ` set al \<Longrightarrow> AList.update k v al = al @ [(k, v)]"
  by (induction al) auto

lemma prevFetches_nonneg:
  assumes "ledger_ok db"
  shows "0 \<le> prevFetches db u"
proof (cases "map_of db u")
  case None
  then show ?thesis by (simp add: prevFetches_def)
next
  case (Some m)
  then have "(u, m) \<in> set db" by (rule map_of_SomeD)
  with assms have "1 \<le> num_fetches m" by (auto simp: ledger_ok_def)
  with Some show ?thesis by (simp add: prevFetches_def)
qed

lemma ledger_ok_setMetaData:
  assumes "ledger_ok db"
  shows "ledger_ok (setMetaData u doc now db)"
proof -
  have d: "distinct (map fst (setMetaData u doc now db))"
    using assms by (simp add: ledger_ok_def distinct_setMetaData)
  have n: "url (createMetaData u doc now db) = u \<and> 1 \<le> num_fetches (createMetaData u doc now db)"
    using prevFetches_nonneg [OF assms, of u]
    by (simp add: createMetaData_def split: prod.splits)
  have "\<forall>(k, m)\<in>set (setMetaData u doc now db). url m = k \<and> 1 \<le> num_fetches m"
    using set_update_subset [of u "createMetaData u doc now db" db] assms n
    by (auto simp: setMetaData_def ledger_ok_def)
  with d show ?thesis by (simp add: ledger_ok_def)
qed

lemma loadMetaData_append:
  "distinct (map fst (acc @ db)) \<Longrightarrow> \<forall>(k, m)\<in>set db. url m = k \<Longrightarrow>
   loadMetaData (map snd db) acc = acc @ db"
proof (induction db arbitrary: acc)
  case Nil
  then show ?case by (simp add: loadMetaData_def)
next
  case (Cons p db)
  obtain k m where p: "p = (k, m)" by (cases p)
  from Cons.prems p have k: "url m = k" and fresh: "k \<notin> fst ` set acc" by auto
  have step: "AList.update (url m) m acc = acc @ [(k, m)]"
    using update_fresh [OF fresh] k by simp
  have "loadMetaData (map snd (p # db)) acc = loadMetaData (map snd db) (acc @ [(k, m)])"
    using p step by (simp add: loadMetaData_def)
  also have "\<dots> = (acc @ [(k, m)]) @ db"
    using Cons.prems p by (intro Cons.IH) auto
  finally show ?case using p by simp
qed

lemma loadMetaData_written: "ledger_ok db \<Longrightarrow> loadMetaData (map snd db) [] = db"
  using loadMetaData_append [of "[]" db] by (auto simp: ledger_ok_def)

lemma META_DB_readMetaDataFile:
  assumes "fs_readFile env (path_join APP_ROOT_PATH META_FILE)
             (if \<not> fs_existsSync env (path_join APP_ROOT_PATH META_FILE) (world s)
              then snd (fs_writeFile env (path_join APP_ROOT_PATH META_FILE)
                          (JSON_stringify env []) (world s))
              else world s) = (Inr json, w)"
    and "JSON_parse env json = Inr metaData"
  shows "META_DB (snd (readMetaDataFile env s)) = loadMetaData metaData (META_DB s)"
  using assms by (simp add: readMetaDataFile_def Let_def)

lemma reachable_ok: "reachable db \<Longrightarrow> ledger_ok db"
proof (induction rule: reachable.induct)
  case start
  then show ?case by (simp add: ledger_ok_def)
next
  case (mirrored db url' doc now)
  then show ?case by (simp add: ledger_ok_setMetaData)
next
  case (restarted db)
  then show ?case by (simp add: loadMetaData_written)
qed

text \<open>
  Claim C9. In every ledger that the program can reach (from the empty ledger, by updates
  after successful mirrors and by reloading the file it wrote), every entry has at least
  one fetch; an update never lowers the number of fetches recorded for any URL; and
  reloading the written file gives the same ledger back.
\<close>

theorem reachable_num_fetches:
  "reachable db \<Longrightarrow>
     (\<forall>(k, m)\<in>set db. 1 \<le> num_fetches m) \<and>
     (\<forall>u doc now k m. map_of db k = Some m \<longrightarrow>
        (\<exists>m'. map_of (setMetaData u doc now db) k = Some m' \<and> num_fetches m \<le> num_fetches m')) \<and>
     loadMetaData (map snd db) [] = db"
proof -
  assume r: "reachable db"
  then have ok: "ledger_ok db" by (rule reachable_ok)
  have a: "\<forall>(k, m)\<in>set db. 1 \<le> num_fetches m"
    using ok by (auto simp: ledger_ok_def)
  have b: "\<forall>u doc now k m. map_of db k = Some m \<longrightarrow>
        (\<exists>m'. map_of (setMetaData u doc now db) k = Some m' \<and> num_fetches m \<le> num_fetches m')"
    by (simp add: map_of_setMetaData createMetaData_def prevFetches_def split: prod.splits)
  have c: "loadMetaData (map snd db) [] = db"
    using ok by (rule loadMetaData_written)
  from a b c show ?thesis by (intro conjI)
qed

text \<open>An instance: the ledger after two mirrors of the example page.\<close>

theorem reachable_num_fetches_witness:
  "reachable (setMetaData ''https://example.com'' example_page 7
               (setMetaData ''https://example.com'' example_page 3 [])) \<and>
   setMetaData ''https://example.com'' example_page 7
     (setMetaData ''https://example.com'' example_page 3 []) =
     [(''https://example.com'',
       \<lparr>url = ''https://example.com'', num_links = 1, num_images = 1, last_fetch = 7,
        num_fetches = 2\<rparr>)] \<and>
   loadMetaData
     [\<lparr>url = ''https://example.com'', num_links = 1, num_images = 1, last_fetch = 7,
       num_fetches = 2\<rparr>] [] =
     [(''https://example.com'',
       \<lparr>url = ''https://example.com'', num_links = 1, num_images = 1, last_fetch = 7,
        num_fetches = 2\<rparr>)]"
proof -
  have r: "reachable (setMetaData ''https://example.com'' example_page 7
               (setMetaData ''https://example.com'' example_page 3 []))"
    by (intro reachable.intros)
  have e: "setMetaData ''https://example.com'' example_page 7
     (setMetaData ''https://example.com'' example_page 3 []) =
     [(''https://example.com'',
       \<lparr>url = ''https://example.com'', num_links = 1, num_images = 1, last_fetch = 7,
        num_fetches = 2\<rparr>)]"
    by (simp add: setMetaData_def createMetaData_def countFilesInHtml_def countTagsInHtml_def
        select_def prevFetches_def example_page_def)
  show ?thesis
    using reachable_num_fetches [OF r] r e by simp
qed

subsection \<open>HTML rewriter\<close>

lemma name_modifyPath: "name (modifyPath d a e) = name e"
  by (simp add: modifyPath_def set_attr_def split: option.splits)

lemma attr_set_attr: "attr (set_attr e a v) b = (if b = a then Some v else attr e b)"
  by (simp add: attr_def set_attr_def update_conv')

lemma attr_modifyPath_other: "b \<noteq> a \<Longrightarrow> attr (modifyPath d a e) b = attr e b"
  by (simp add: modifyPath_def attr_set_attr split: option.splits)

lemma attr_modifyPath_None: "attr (modifyPath d a e) a = None \<longleftrightarrow> attr e a = None"
  by (simp add: modifyPath_def attr_set_attr split: option.splits)

lemma selectors_modifyPath:
  "IMAGE_SELECTOR (modifyPath d a e) = IMAGE_SELECTOR e"
  "a \<noteq> ''rel'' \<Longrightarrow> CSS_SELECTOR (modifyPath d a e) = CSS_SELECTOR e"
  "JS_SELECTOR (modifyPath d a e) = JS_SELECTOR e"
proof -
  show "IMAGE_SELECTOR (modifyPath d a e) = IMAGE_SELECTOR e"
    by (simp add: IMAGE_SELECTOR_def name_modifyPath)
  show "a \<noteq> ''rel'' \<Longrightarrow> CSS_SELECTOR (modifyPath d a e) = CSS_SELECTOR e"
    by (simp add: CSS_SELECTOR_def name_modifyPath attr_modifyPath_other)
  show "JS_SELECTOR (modifyPath d a e) = JS_SELECTOR e"
  proof (cases "a = ''src''")
    case True
    then show ?thesis by (simp add: JS_SELECTOR_def name_modifyPath attr_modifyPath_None)
  next
    case False
    then have "attr (modifyPath d a e) ''src'' = attr e ''src''"
      by (simp add: attr_modifyPath_other)
    then show ?thesis by (simp add: JS_SELECTOR_def name_modifyPath)
  qed
qed

lemma selectors_exclusive:
  "IMAGE_SELECTOR e \<Longrightarrow> \<not> CSS_SELECTOR e \<and> \<not> JS_SELECTOR e"
  "CSS_SELECTOR e \<Longrightarrow> \<not> JS_SELECTOR e"
  by (auto simp: IMAGE_SELECTOR_def CSS_SELECTOR_def JS_SELECTOR_def)

lemma modifyHtmlContent_map: "modifyHtmlContent doc d = map (modifyElement d) doc"
proof -
  have "(if JS_SELECTOR
            (if CSS_SELECTOR (if IMAGE_SELECTOR e then modifyPath d ''src'' e else e)
             then modifyPath d ''href'' (if IMAGE_SELECTOR e then modifyPath d ''src'' e else e)
             else (if IMAGE_SELECTOR e then modifyPath d ''src'' e else e))
        then modifyPath d ''src''
            (if CSS_SELECTOR (if IMAGE_SELECTOR e then modifyPath d ''src'' e else e)
             then modifyPath d ''href'' (if IMAGE_SELECTOR e then modifyPath d ''src'' e else e)
             else (if IMAGE_SELECTOR e then modifyPath d ''src'' e else e))
        else (if CSS_SELECTOR (if IMAGE_SELECTOR e then modifyPath d ''src'' e else e)
             then modifyPath d ''href'' (if IMAGE_SELECTOR e then modifyPath d ''src'' e else e)
             else (if IMAGE_SELECTOR e then modifyPath d ''src'' e else e))) = modifyElement d e"
    for e
  proof (cases "IMAGE_SELECTOR e")
    case True
    with selectors_exclusive(1) [OF True] show ?thesis
      by (simp add: modifyElement_def reference_def selectors_modifyPath)
  next
    case False
    show ?thesis
    proof (cases "CSS_SELECTOR e")
      case True
      with False selectors_exclusive(2) [OF True] show ?thesis
        by (simp add: modifyElement_def reference_def selectors_modifyPath)
    next
      case c: False
      with False show ?thesis
        by (simp add: modifyElement_def reference_def)
    qed
  qed
  then show ?thesis
    by (simp only: modifyHtmlContent_def each_def map_map comp_def)
qed


lemma nth_modifyHtmlContent:
  "i < length doc \<Longrightarrow> modifyHtmlContent doc d ! i = modifyElement d (doc ! i)"
  by (simp add: modifyHtmlContent_map)

lemma reference_src_href: "reference e = Some a \<Longrightarrow> a = ''src'' \<or> a = ''href''"
  by (auto simp: reference_def split: if_splits)

lemma reference_modifyElement: "reference (modifyElement d e) = reference e"
proof (cases "reference e")
  case None
  then show ?thesis by (simp add: modifyElement_def)
next
  case (Some a)
  from reference_src_href [OF Some] have "a \<noteq> ''rel''" by auto
  then have "reference (modifyPath d a e) = reference e"
    by (simp add: reference_def selectors_modifyPath)
  with Some show ?thesis by (simp add: modifyElement_def)
qed

text \<open>
  Claim C4, as amended. In the document that \<open>modifyHtmlContent\<close> returns, an image
  \<^verbatim>\<open>src\<close>, stylesheet \<^verbatim>\<open>href\<close> or script \<^verbatim>\<open>src\<close> reference that starts with \<^verbatim>\<open>http\<close> has the
  value it had, an empty one is still empty, and any other reference \<open>r\<close> has the value
  \<open>path_join d r\<close>.
\<close>

theorem modifyHtmlContent_references:
  "length (modifyHtmlContent doc d) = length doc \<and>
   (\<forall>i<length doc. \<forall>a r.
      reference (doc ! i) = Some a \<and> attr (doc ! i) a = Some r \<longrightarrow>
      reference (modifyHtmlContent doc d ! i) = Some a \<and>
      attr (modifyHtmlContent doc d ! i) a =
        Some (if r = [] \<or> startsWith r ''http'' then r else path_join d r))"
proof (intro conjI allI impI)
  show "length (modifyHtmlContent doc d) = length doc"
    by (simp add: modifyHtmlContent_map)
next
  fix i a r
  assume i: "i < length doc"
    and h: "reference (doc ! i) = Some a \<and> attr (doc ! i) a = Some r"
  show "reference (modifyHtmlContent doc d ! i) = Some a"
    using h by (simp add: nth_modifyHtmlContent [OF i] reference_modifyElement)
  show "attr (modifyHtmlContent doc d ! i) a =
        Some (if r = [] \<or> startsWith r ''http'' then r else path_join d r)"
    using h
    by (simp add: nth_modifyHtmlContent [OF i] modifyElement_def modifyPath_def attr_set_attr)
qed

text \<open>
  An instance: the three references of the example page, an absolute reference and an
  empty one.
\<close>

theorem modifyHtmlContent_references_witness:
  "attr (modifyHtmlContent example_page ''example_com'' ! 0) ''src'' = Some ''example_com/a.png'' \<and>
   attr (modifyHtmlContent example_page ''example_com'' ! 1) ''href'' = Some ''example_com/b.css'' \<and>
   attr (modifyHtmlContent example_page ''example_com'' ! 2) ''src'' = Some ''example_com/c.js'' \<and>
   attr (modifyHtmlContent [Element ''img'' [(''src'', ''https://example.com/a.png'')]] ''example_com'' ! 0)
     ''src'' = Some ''https://example.com/a.png'' \<and>
   attr (modifyHtmlContent [Element ''img'' [(''src'', [])]] ''example_com'' ! 0) ''src'' = Some []"
proof -
  note T = modifyHtmlContent_references [THEN conjunct2, rule_format]
  have e: "reference (example_page ! 0) = Some ''src'' \<and> attr (example_page ! 0) ''src'' = Some ''/a.png''"
    "reference (example_page ! 1) = Some ''href'' \<and> attr (example_page ! 1) ''href'' = Some ''/b.css''"
    "reference (example_page ! 2) = Some ''src'' \<and> attr (example_page ! 2) ''src'' = Some ''/c.js''"
    by (simp_all add: example_page_def reference_def IMAGE_SELECTOR_def CSS_SELECTOR_def
        JS_SELECTOR_def attr_def lower_def)
  have p: "path_join ''example_com'' ''/a.png'' = ''example_com/a.png''"
    "path_join ''example_com'' ''/b.css'' = ''example_com/b.css''"
    "path_join ''example_com'' ''/c.js'' = ''example_com/c.js''"
    by (simp_all add: path_join_def path_normalize_def normalizeString_def normalize_step_def Let_def)
  have l: "0 < length example_page" "1 < length example_page" "2 < length example_page"
    by (simp_all add: example_page_def)
  have 0: "attr (modifyHtmlContent example_page ''example_com'' ! 0) ''src'' = Some ''example_com/a.png''"
    using T [OF l(1) e(1), of "''example_com''"] by (simp add: p startsWith_def)
  have 1: "attr (modifyHtmlContent example_page ''example_com'' ! 1) ''href'' = Some ''example_com/b.css''"
    using T [OF l(2) e(2), of "''example_com''"] by (simp add: p startsWith_def)
  have 2: "attr (modifyHtmlContent example_page ''example_com'' ! 2) ''src'' = Some ''example_com/c.js''"
    using T [OF l(3) e(3), of "''example_com''"] by (simp add: p startsWith_def)
  have 3: "attr (modifyHtmlContent [Element ''img'' [(''src'', ''https://example.com/a.png'')]] ''example_com'' ! 0)
     ''src'' = Some ''https://example.com/a.png''"
    using T [of 0 "[Element ''img'' [(''src'', ''https://example.com/a.png'')]]" "''src''"
        "''https://example.com/a.png''" "''example_com''"]
    by (simp add: reference_def IMAGE_SELECTOR_def attr_def startsWith_def)
  have 4: "attr (modifyHtmlContent [Element ''img'' [(''src'', [])]] ''example_com'' ! 0) ''src'' = Some []"
    using T [of 0 "[Element ''img'' [(''src'', [])]]" "''src''" "[]" "''example_com''"]
    by (simp add: reference_def IMAGE_SELECTOR_def attr_def)
  from 0 1 2 3 4 show ?thesis by simp
qed

text \<open>
  An empty reference does not start with \<^verbatim>\<open>http\<close> and is not replaced by the join of the
  directory with it.
\<close>

theorem modifyHtmlContent_empty_reference_counterexample:
  "\<not> startsWith [] ''http'' \<and>
   attr (modifyHtmlContent [Element ''img'' [(''src'', [])]] ''example_com'' ! 0) ''src'' = Some [] \<and>
   attr (modifyHtmlContent [Element ''img'' [(''src'', [])]] ''example_com'' ! 0) ''src'' \<noteq>
     Some (path_join ''example_com'' [])"
  by (simp add: modifyHtmlContent_def each_def modifyPath_def set_attr_def attr_def
      IMAGE_SELECTOR_def CSS_SELECTOR_def JS_SELECTOR_def startsWith_def
      path_join_def path_normalize_def normalizeString_def normalize_step_def Let_def)











end
